theory Spec2Isabelle
  imports Main "HOL-Library.Sublist"
begin

section \<open>Python values, exceptions and the objects of the external libraries\<close>

text \<open>
  The transcriber of \<^verbatim>\<open>whisperx_transcriber\<close> orchestrates three external libraries
  (whisperx, pyannote, torch). Their objects are opaque handles here; every call into them
  is a field of the record \<open>ext\<close> below and may raise.

  \<open>exn\<close> stands for the instances of Python's \<^verbatim>\<open>Exception\<close> class, which is what
  \<^verbatim>\<open>except Exception\<close> catches. The argument of a constructor is \<^verbatim>\<open>str(e)\<close>, except for
  \<open>KeyError\<close>, which carries the missing key.
\<close>

datatype exn =
    AttributeError string
  | KeyError string
  | NameError string
  | TypeError string
  | LibraryError string

definition quote :: string where
  "quote = [CHR 0x27]"

fun py_str :: "exn \<Rightarrow> string" where
  "py_str (AttributeError m) = m"
| "py_str (KeyError k) = quote @ k @ quote"
| "py_str (NameError m) = m"
| "py_str (TypeError m) = m"
| "py_str (LibraryError m) = m"

datatype whisper_model = WhisperModel nat
datatype align_model = AlignModel nat
datatype pipeline = Pipeline nat
datatype audio = Audio nat
datatype diarize_segments = DiarizeSegments nat
datatype text_file = TextFile nat

text \<open>
  A value stored in a dictionary: a string, or any other object (a list of segments, a
  nested mapping) by its handle. \<^verbatim>\<open>!=\<close> is equality of these values.
  A dictionary is an association list in insertion order; a lookup finds the first entry.
\<close>

datatype val = Str string | Obj nat

type_synonym dict = "(string \<times> val) list"

definition subscript :: "dict \<Rightarrow> string \<Rightarrow> exn + val" where
  "subscript d k = (case map_of d k of None \<Rightarrow> Inl (KeyError k) | Some v \<Rightarrow> Inr v)"

text \<open>The argument of the diarization pipeline: the decoded audio or the path of the file.\<close>

datatype diar_input = Waveform audio | File_path string

text \<open>\<^verbatim>\<open>os.path.join\<close> of two components (POSIX).\<close>

definition path_join :: "string \<Rightarrow> string \<Rightarrow> string" where
  "path_join a b =
     (case b of
        [] \<Rightarrow> (if a = [] \<or> last a = CHR ''/'' then a else a @ ''/'')
      | c # _ \<Rightarrow>
          (if c = CHR ''/'' then b
           else if a = [] \<or> last a = CHR ''/'' then a @ b
           else a @ ''/'' @ b))"

section \<open>The transcriber object\<close>

text \<open>The attributes \<^verbatim>\<open>__init__\<close> gives a \<^verbatim>\<open>WhisperXTranscriber\<close>; \<open>None\<close> is Python's \<^verbatim>\<open>None\<close>.\<close>

record transcriber =
  device :: string
  compute_type :: string
  model :: "whisper_model option"
  align_model :: "align_model option"
  align_metadata :: "dict option"
  diarize_model :: "pipeline option"
  model_name :: string

text \<open>
  The external world: the file system, torch, whisperx, pyannote and yaml. A call returns
  \<open>Inr\<close> of its value or \<open>Inl\<close> of the exception it raises, and is a function of its
  arguments: the same call gives the same answer. \<open>attr_model_name\<close> reads the attribute
  \<^verbatim>\<open>model_name\<close> of an acoustic model, \<open>py_format\<close> is the text an f-string gives a value, and
  \<open>module_dirname\<close> is \<^verbatim>\<open>os.path.dirname(__file__)\<close>.
\<close>

record ext =
  cuda_is_available :: bool
  cuda_device_capability :: "int \<times> int"
  os_path_exists :: "string \<Rightarrow> bool"
  module_dirname :: string
  py_format :: "val \<Rightarrow> string"
  whisperx_load_model :: "string \<Rightarrow> string \<Rightarrow> string \<Rightarrow> exn + whisper_model"
  attr_model_name :: "whisper_model \<Rightarrow> exn + string"
  whisperx_load_audio :: "string \<Rightarrow> exn + audio"
  model_transcribe :: "whisper_model \<Rightarrow> audio \<Rightarrow> nat \<Rightarrow> exn + dict"
  whisperx_load_align_model :: "val \<Rightarrow> string \<Rightarrow> exn + (align_model \<times> dict)"
  whisperx_align ::
    "val \<Rightarrow> align_model option \<Rightarrow> dict option \<Rightarrow> audio \<Rightarrow> string \<Rightarrow> bool \<Rightarrow> exn + dict"
  speaker_diarization :: "string \<Rightarrow> string \<Rightarrow> string \<Rightarrow> exn + pipeline"
  open_read :: "string \<Rightarrow> exn + text_file"
  yaml_safe_load :: "text_file \<Rightarrow> exn + dict"
  pipeline_instantiate :: "pipeline \<Rightarrow> val \<Rightarrow> exn + pipeline"
  pipeline_call :: "pipeline \<Rightarrow> diar_input \<Rightarrow> exn + diarize_segments"
  whisperx_assign_word_speakers :: "diarize_segments \<Rightarrow> dict \<Rightarrow> exn + dict"

text \<open>
  What a run does that can be observed from outside, in the order it happens: the lines it
  prints, the calls it makes into the libraries, and the Qt signals it emits.
\<close>

datatype event =
    Print string
  | Print_exc exn
  | Load_model string string string
  | Load_audio string
  | Transcribe whisper_model audio nat
  | Load_align_model val string
  | Align val "align_model option" "dict option" audio string bool
  | New_SpeakerDiarization string string string
  | Open_file string
  | Yaml_safe_load text_file
  | Instantiate pipeline val
  | Diarize pipeline diar_input
  | Assign_word_speakers diarize_segments dict
  | Emit_transcription_complete dict
  | Emit_transcription_error string

section \<open>Statements: state, exceptions and the trace\<close>

text \<open>
  A method body is a function from the transcriber before to the outcome (a returned
  value or a raised exception), the transcriber after, and the events in between.
\<close>

datatype 'a outcome = Returns 'a | Raises exn

type_synonym 'a prog = "transcriber \<Rightarrow> 'a outcome \<times> transcriber \<times> event list"

definition py_return :: "'a \<Rightarrow> 'a prog" where
  "py_return a s = (Returns a, s, [])"

definition py_raise :: "exn \<Rightarrow> 'a prog" where
  "py_raise e s = (Raises e, s, [])"

definition py_eval :: "exn + 'a \<Rightarrow> 'a prog" where
  "py_eval r s = (case r of Inl e \<Rightarrow> (Raises e, s, []) | Inr a \<Rightarrow> (Returns a, s, []))"

definition py_print :: "string \<Rightarrow> unit prog" where
  "py_print msg s = (Returns (), s, [Print msg])"

definition emit :: "event \<Rightarrow> unit prog" where
  "emit ev s = (Returns (), s, [ev])"

definition ext_call :: "event \<Rightarrow> exn + 'a \<Rightarrow> 'a prog" where
  "ext_call ev r s = (case r of Inl e \<Rightarrow> (Raises e, s, [ev]) | Inr a \<Rightarrow> (Returns a, s, [ev]))"

definition assign :: "(transcriber \<Rightarrow> transcriber) \<Rightarrow> unit prog" where
  "assign upd s = (Returns (), upd s, [])"

text \<open>Sequencing: the second statement runs only when the first has not raised.\<close>

definition and_then :: "'a prog \<Rightarrow> ('a \<Rightarrow> 'b prog) \<Rightarrow> 'b prog" where
  "and_then m f s =
     (case m s of
        (Raises e, s1, t1) \<Rightarrow> (Raises e, s1, t1)
      | (Returns a, s1, t1) \<Rightarrow> (case f a s1 of (out, s2, t2) \<Rightarrow> (out, s2, t1 @ t2)))"

text \<open>\<^verbatim>\<open>try: m  except Exception as e: h e\<close>\<close>

definition try_except :: "'a prog \<Rightarrow> (exn \<Rightarrow> 'a prog) \<Rightarrow> 'a prog" where
  "try_except m h s =
     (case m s of
        (Raises e, s1, t1) \<Rightarrow> (case h e s1 of (out, s2, t2) \<Rightarrow> (out, s2, t1 @ t2))
      | (Returns a, s1, t1) \<Rightarrow> (Returns a, s1, t1))"

section \<open>WhisperXTranscriber\<close>

text \<open>
  The class is defined twice, in \<^verbatim>\<open>transcriber.py\<close> and in \<^verbatim>\<open>gui.py\<close>. The two texts agree
  except in two places, both on the diarization path; the definitions below take the
  module as a parameter exactly there.
\<close>

datatype module = Transcriber_py | Gui_py

definition init :: "ext \<Rightarrow> transcriber" where
  "init E =
     \<lparr>device = (if cuda_is_available E then ''cuda'' else ''cpu''),
      compute_type =
        (if cuda_is_available E \<and> 7 \<le> fst (cuda_device_capability E)
         then ''float16'' else ''int8''),
      model = None,
      align_model = None,
      align_metadata = None,
      diarize_model = None,
      model_name = ''small.en''\<rparr>"

text \<open>
  The test of \<^verbatim>\<open>load_model\<close>:
  \<^verbatim>\<open>self.model is None or self.model.model_name != self.model_name\<close>.
  The attribute of the cached model is read only when there is a cached model.
\<close>

definition load_model_test :: "ext \<Rightarrow> bool prog" where
  "load_model_test E s =
     (case model s of
        None \<Rightarrow> py_return True s
      | Some m \<Rightarrow> and_then (py_eval (attr_model_name E m)) (\<lambda>n. py_return (n \<noteq> model_name s)) s)"

definition load_model :: "ext \<Rightarrow> unit prog" where
  "load_model E =
     and_then (load_model_test E) (\<lambda>reload s.
       if reload then
         and_then (py_print (''Loading WhisperX model: '' @ model_name s)) (\<lambda>_.
         and_then (ext_call (Load_model (model_name s) (device s) (compute_type s))
                     (whisperx_load_model E (model_name s) (device s) (compute_type s))) (\<lambda>m.
         and_then (assign (\<lambda>s. s\<lparr>model := Some m\<rparr>)) (\<lambda>_.
         py_print ''WhisperX model loaded successfully.''))) s
       else py_return () s)"

text \<open>
  The test of \<^verbatim>\<open>load_align_model\<close>:
  \<^verbatim>\<open>self.align_model is None or self.align_metadata['language_code'] != language_code\<close>.
  Subscripting \<^verbatim>\<open>None\<close> raises \<^verbatim>\<open>TypeError\<close>, a missing key \<^verbatim>\<open>KeyError\<close>.
\<close>

definition load_align_model_test :: "val \<Rightarrow> bool prog" where
  "load_align_model_test language_code s =
     (case align_model s of
        None \<Rightarrow> py_return True s
      | Some _ \<Rightarrow>
          (case align_metadata s of
             None \<Rightarrow> py_raise (TypeError (quote @ ''NoneType'' @ quote @ '' object is not subscriptable'')) s
           | Some md \<Rightarrow>
               and_then (py_eval (subscript md ''language_code''))
                 (\<lambda>v. py_return (v \<noteq> language_code)) s))"

definition load_align_model :: "ext \<Rightarrow> val \<Rightarrow> unit prog" where
  "load_align_model E language_code =
     and_then (load_align_model_test language_code) (\<lambda>reload s.
       if reload then
         and_then (py_print (''Loading alignment model for language: '' @ py_format E language_code)) (\<lambda>_.
         and_then (ext_call (Load_align_model language_code (device s))
                     (whisperx_load_align_model E language_code (device s))) (\<lambda>(am, md).
         and_then (assign (\<lambda>s. s\<lparr>align_model := Some am, align_metadata := Some md\<rparr>)) (\<lambda>_.
         py_print ''Alignment model loaded successfully.''))) s
       else py_return () s)"

text \<open>
  \<^verbatim>\<open>load_diarize_model\<close>. In \<^verbatim>\<open>transcriber.py\<close> the name \<^verbatim>\<open>yaml\<close> is never imported, so
  \<^verbatim>\<open>yaml.safe_load(f)\<close> raises \<^verbatim>\<open>NameError\<close> there once the file is open; \<^verbatim>\<open>gui.py\<close> imports it.
  Closing the file at the end of the \<^verbatim>\<open>with\<close> block changes nothing of the transcriber and is
  left out of the trace.
\<close>

definition load_diarize_model :: "module \<Rightarrow> ext \<Rightarrow> unit prog" where
  "load_diarize_model M E s =
     (case diarize_model s of
        Some _ \<Rightarrow> py_return () s
      | None \<Rightarrow>
         (let models_path = path_join (module_dirname E) ''models'';
              segmentation = path_join (path_join models_path ''segmentation-3.0'') ''pytorch_model.bin'';
              embedding = path_join (path_join models_path ''wespeaker-voxceleb-resnet34-LM'') ''pytorch_model.bin'';
              config_path = path_join (path_join models_path ''speaker-diarization-3.1'') ''config.yaml''
          in
          and_then (py_print ''Loading diarization model...'') (\<lambda>_.
          and_then (ext_call (New_SpeakerDiarization segmentation embedding ''AgglomerativeClustering'')
                      (speaker_diarization E segmentation embedding ''AgglomerativeClustering'')) (\<lambda>diarization_pipeline.
          and_then (ext_call (Open_file config_path) (open_read E config_path)) (\<lambda>f.
          and_then (case M of
                      Transcriber_py \<Rightarrow> py_raise (NameError (''name '' @ quote @ ''yaml'' @ quote @ '' is not defined''))
                    | Gui_py \<Rightarrow> ext_call (Yaml_safe_load f) (yaml_safe_load E f)) (\<lambda>config.
          and_then (py_eval (subscript config ''pipeline'')) (\<lambda>params.
          and_then (ext_call (Instantiate diarization_pipeline params)
                      (pipeline_instantiate E diarization_pipeline params)) (\<lambda>dm.
          and_then (assign (\<lambda>s. s\<lparr>diarize_model := Some dm\<rparr>)) (\<lambda>_.
          py_print ''Diarization model loaded successfully.''))))))) s))"

text \<open>
  The alignment step of \<^verbatim>\<open>transcribe_audio\<close> (the body of \<^verbatim>\<open>if align_timestamps\<close>); the
  arguments of \<^verbatim>\<open>whisperx.align\<close> are evaluated from left to right, then it is called.
\<close>

definition align_step :: "ext \<Rightarrow> audio \<Rightarrow> dict \<Rightarrow> dict prog" where
  "align_step E a result =
     and_then (py_eval (subscript result ''language'')) (\<lambda>language.
     and_then (load_align_model E language) (\<lambda>_.
     and_then (py_eval (subscript result ''segments'')) (\<lambda>segments s.
       ext_call (Align segments (align_model s) (align_metadata s) a (device s) False)
         (whisperx_align E segments (align_model s) (align_metadata s) a (device s) False) s)))"

text \<open>
  The diarization step (the body of \<^verbatim>\<open>if diarize\<close>). \<^verbatim>\<open>transcriber.py\<close> calls the pipeline
  on the decoded audio, \<^verbatim>\<open>gui.py\<close> on the path of the file. Calling \<^verbatim>\<open>None\<close> raises
  \<^verbatim>\<open>TypeError\<close>.
\<close>

definition diarize_arg :: "module \<Rightarrow> string \<Rightarrow> audio \<Rightarrow> diar_input" where
  "diarize_arg M audio_file_path a =
     (case M of Transcriber_py \<Rightarrow> Waveform a | Gui_py \<Rightarrow> File_path audio_file_path)"

definition diarize_step :: "module \<Rightarrow> ext \<Rightarrow> string \<Rightarrow> audio \<Rightarrow> dict \<Rightarrow> dict prog" where
  "diarize_step M E audio_file_path a result =
     and_then (load_diarize_model M E) (\<lambda>_.
     and_then (\<lambda>s. case diarize_model s of
                 None \<Rightarrow> py_raise (TypeError (quote @ ''NoneType'' @ quote @ '' object is not callable'')) s
               | Some p \<Rightarrow>
                   ext_call (Diarize p (diarize_arg M audio_file_path a))
                     (pipeline_call E p (diarize_arg M audio_file_path a)) s) (\<lambda>diarize_segments.
     ext_call (Assign_word_speakers diarize_segments result)
       (whisperx_assign_word_speakers E diarize_segments result)))"

text \<open>The body of the \<^verbatim>\<open>try\<close> block of \<^verbatim>\<open>transcribe_audio\<close>.\<close>

definition transcribe_audio_try :: "module \<Rightarrow> ext \<Rightarrow> string \<Rightarrow> bool \<Rightarrow> bool \<Rightarrow> dict prog" where
  "transcribe_audio_try M E audio_file_path align_timestamps diarize =
     and_then (ext_call (Load_audio audio_file_path) (whisperx_load_audio E audio_file_path)) (\<lambda>a.
     and_then (\<lambda>s. case model s of
                 None \<Rightarrow> py_raise (AttributeError (quote @ ''NoneType'' @ quote @ '' object has no attribute ''
                                      @ quote @ ''transcribe'' @ quote)) s
               | Some m \<Rightarrow> ext_call (Transcribe m a 16) (model_transcribe E m a 16) s) (\<lambda>result.
     and_then (if align_timestamps then align_step E a result else py_return result) (\<lambda>result.
     and_then (if diarize then diarize_step M E audio_file_path a result else py_return result) (\<lambda>result.
     py_return result))))"

text \<open>
  \<^verbatim>\<open>transcribe_audio\<close>: the existence test, \<^verbatim>\<open>self.load_model()\<close> before the \<^verbatim>\<open>try\<close>, the
  \<^verbatim>\<open>try\<close> block, and the handler that prints the error and returns \<^verbatim>\<open>None\<close>.
\<close>

definition transcribe_audio :: "module \<Rightarrow> ext \<Rightarrow> string \<Rightarrow> bool \<Rightarrow> bool \<Rightarrow> dict option prog" where
  "transcribe_audio M E audio_file_path align_timestamps diarize s =
     (if \<not> os_path_exists E audio_file_path then
        and_then (py_print (''Error: Audio file not found at '' @ audio_file_path)) (\<lambda>_.
        py_return None) s
      else
        and_then (load_model E) (\<lambda>_.
        try_except
          (and_then (transcribe_audio_try M E audio_file_path align_timestamps diarize) (\<lambda>result.
           py_return (Some result)))
          (\<lambda>e.
           and_then (py_print (''An error occurred during transcription: '' @ py_str e)) (\<lambda>_.
           and_then (emit (Print_exc e)) (\<lambda>_.
           py_return None)))) s)"

definition set_model :: "string \<Rightarrow> transcriber \<Rightarrow> transcriber" where
  "set_model name s = s\<lparr>model_name := name, model := None\<rparr>"

section \<open>The worker thread and the main window of gui.py\<close>

text \<open>
  A \<^verbatim>\<open>TranscriptionThread\<close> holds the arguments of one run and a reference to the
  transcriber of the main window; the transcriber it refers to is the state of \<open>run\<close>.
\<close>

record transcription_thread =
  audio_file :: string
  align_timestamps :: bool
  diarize :: bool

text \<open>\<^verbatim>\<open>if result:\<close> where \<^verbatim>\<open>None\<close> and the empty dictionary are false.\<close>

definition truthy :: "dict option \<Rightarrow> bool" where
  "truthy r = (case r of None \<Rightarrow> False | Some d \<Rightarrow> d \<noteq> [])"

definition run :: "module \<Rightarrow> ext \<Rightarrow> transcription_thread \<Rightarrow> unit prog" where
  "run M E th =
     try_except
       (and_then (transcribe_audio M E (audio_file th) (align_timestamps th) (diarize th)) (\<lambda>result.
        case result of
          Some d \<Rightarrow>
            (if truthy result then emit (Emit_transcription_complete d)
             else emit (Emit_transcription_error ''Transcription failed. Please check the console for errors.''))
        | None \<Rightarrow> emit (Emit_transcription_error ''Transcription failed. Please check the console for errors.'')))
       (\<lambda>e. emit (Emit_transcription_error (py_str e)))"

text \<open>The main window: its transcriber, and the widgets as the rest of the record.\<close>

record main_window =
  transcriber :: transcriber

definition change_model :: "'a main_window_scheme \<Rightarrow> string \<Rightarrow> 'a main_window_scheme" where
  "change_model w name = w\<lparr>transcriber := (transcriber w)\<lparr>model_name := name, model := None\<rparr>\<rparr>"

section \<open>Sequences of operations\<close>

text \<open>
  The operations a caller has on a transcriber. A caller that goes on after an operation
  has raised goes on with the transcriber the operation left.
\<close>

datatype operation =
    Op_load_model
  | Op_load_align_model val
  | Op_load_diarize_model
  | Op_transcribe_audio string bool bool
  | Op_set_model string

fun run_op :: "module \<Rightarrow> ext \<Rightarrow> operation \<Rightarrow> transcriber \<Rightarrow> transcriber \<times> event list" where
  "run_op M E Op_load_model s = snd (load_model E s)"
| "run_op M E (Op_load_align_model l) s = snd (load_align_model E l s)"
| "run_op M E Op_load_diarize_model s = snd (load_diarize_model M E s)"
| "run_op M E (Op_transcribe_audio p al di) s = snd (transcribe_audio M E p al di s)"
| "run_op M E (Op_set_model name) s = (set_model name s, [])"

fun run_ops :: "module \<Rightarrow> ext \<Rightarrow> operation list \<Rightarrow> transcriber \<Rightarrow> transcriber \<times> event list" where
  "run_ops M E [] s = (s, [])"
| "run_ops M E (op # ops) s =
     (case run_op M E op s of (s1, t1) \<Rightarrow>
        case run_ops M E ops s1 of (s2, t2) \<Rightarrow> (s2, t1 @ t2))"

section \<open>Reading a run\<close>

definition outcome_of :: "'a outcome \<times> transcriber \<times> event list \<Rightarrow> 'a outcome" where
  "outcome_of r = fst r"

definition state_after :: "'a outcome \<times> transcriber \<times> event list \<Rightarrow> transcriber" where
  "state_after r = fst (snd r)"

definition trace_of :: "'a outcome \<times> transcriber \<times> event list \<Rightarrow> event list" where
  "trace_of r = snd (snd r)"

text \<open>
  The steps of the pipeline as they show in a trace: the call of the acoustic model, the
  call of \<^verbatim>\<open>whisperx.align\<close>, the call of the diarization pipeline and the call of
  \<^verbatim>\<open>whisperx.assign_word_speakers\<close> (the last two make up the diarization stage).
\<close>

datatype step = Transcription | Alignment | Diarization | Speaker_assignment

fun step_of :: "event \<Rightarrow> step option" where
  "step_of (Transcribe m a b) = Some Transcription"
| "step_of (Align g am md a d c) = Some Alignment"
| "step_of (Diarize p i) = Some Diarization"
| "step_of (Assign_word_speakers g r) = Some Speaker_assignment"
| "step_of _ = None"

fun steps_run :: "event list \<Rightarrow> step list" where
  "steps_run [] = []"
| "steps_run (ev # t) = (case step_of ev of None \<Rightarrow> steps_run t | Some st \<Rightarrow> st # steps_run t)"

definition step_calls :: "event list \<Rightarrow> event list" where
  "step_calls t = filter (\<lambda>ev. step_of ev \<noteq> None) t"

definition expected_steps :: "bool \<Rightarrow> bool \<Rightarrow> step list" where
  "expected_steps al di =
     [Transcription] @ (if al then [Alignment] else [])
       @ (if di then [Diarization, Speaker_assignment] else [])"

fun is_signal :: "event \<Rightarrow> bool" where
  "is_signal (Emit_transcription_complete d) = True"
| "is_signal (Emit_transcription_error m) = True"
| "is_signal _ = False"

text \<open>The events by which a diarization pipeline is built.\<close>

fun builds_diarizer :: "event \<Rightarrow> bool" where
  "builds_diarizer (New_SpeakerDiarization g e c) = True"
| "builds_diarizer (Open_file p) = True"
| "builds_diarizer (Yaml_safe_load f) = True"
| "builds_diarizer (Instantiate p v) = True"
| "builds_diarizer _ = False"

text \<open>
  \<open>keeps I P m\<close>: started in a state that satisfies \<open>I\<close>, the statement \<open>m\<close> ends in one
  that does, whether it returns or raises, and every event of it satisfies \<open>P\<close>.
\<close>

definition keeps :: "(transcriber \<Rightarrow> bool) \<Rightarrow> (event \<Rightarrow> bool) \<Rightarrow> 'a prog \<Rightarrow> bool" where
  "keeps I P m = (\<forall>s. I s \<longrightarrow> I (state_after (m s)) \<and> list_all P (trace_of (m s)))"

text \<open>
  The three stages as the specification describes them, written down independently of
  \<open>transcribe_audio\<close>: speech transcription; then alignment, on the segments of the
  transcription, if \<open>al\<close>; then diarization and the assignment of speakers, on the current
  result, if \<open>di\<close>. It is computed from the libraries alone, with the models cached in \<open>c\<close>,
  and gives the calls of the stages in order and the result of the last stage (\<open>None\<close> when a
  stage fails).
\<close>

definition staged_pipeline ::
  "module \<Rightarrow> ext \<Rightarrow> string \<Rightarrow> bool \<Rightarrow> bool \<Rightarrow> transcriber \<Rightarrow> (event list \<times> dict) option" where
  "staged_pipeline M E p al di c =
     (case whisperx_load_audio E p of Inl _ \<Rightarrow> None | Inr a \<Rightarrow>
      case model c of None \<Rightarrow> None | Some m \<Rightarrow>
      case model_transcribe E m a 16 of Inl _ \<Rightarrow> None | Inr r0 \<Rightarrow>
      case (if al then
              (case subscript r0 ''segments'' of Inl _ \<Rightarrow> None | Inr g \<Rightarrow>
               case whisperx_align E g (align_model c) (align_metadata c) a (device c) False of
                 Inl _ \<Rightarrow> None
               | Inr r1 \<Rightarrow> Some ([Align g (align_model c) (align_metadata c) a (device c) False], r1))
            else Some ([], r0)) of None \<Rightarrow> None | Some (calls_al, r1) \<Rightarrow>
      case (if di then
              (case diarize_model c of None \<Rightarrow> None | Some pl \<Rightarrow>
               case pipeline_call E pl (diarize_arg M p a) of Inl _ \<Rightarrow> None | Inr ds \<Rightarrow>
               case whisperx_assign_word_speakers E ds r1 of
                 Inl _ \<Rightarrow> None
               | Inr r \<Rightarrow> Some ([Diarize pl (diarize_arg M p a), Assign_word_speakers ds r1], r))
            else Some ([], r1)) of None \<Rightarrow> None | Some (calls_di, r) \<Rightarrow>
      Some ([Transcribe m a 16] @ calls_al @ calls_di, r))"

text \<open>
  \<open>hoare P m Q\<close>: when \<open>P\<close> holds of the events so far and the transcriber, \<open>Q\<close> holds of them
  after \<open>m\<close>, whether it returns or raises.
\<close>

definition hoare ::
  "(event list \<Rightarrow> transcriber \<Rightarrow> bool) \<Rightarrow> 'a prog \<Rightarrow> (event list \<Rightarrow> transcriber \<Rightarrow> bool) \<Rightarrow> bool" where
  "hoare P m Q = (\<forall>h s. P h s \<longrightarrow> Q (h @ trace_of (m s)) (state_after (m s)))"

definition untouched ::
  "(event \<Rightarrow> bool) \<Rightarrow> (transcriber \<Rightarrow> 'f) \<Rightarrow> transcriber \<Rightarrow> event list \<Rightarrow> transcriber \<Rightarrow> bool" where
  "untouched L F s0 h s = (list_all (\<lambda>ev. \<not> L ev) h \<and> F s = F s0)"

definition loads_cached ::
  "(event \<Rightarrow> bool) \<Rightarrow> (event \<Rightarrow> 'f \<Rightarrow> bool) \<Rightarrow> (transcriber \<Rightarrow> 'f) \<Rightarrow> transcriber
     \<Rightarrow> event list \<Rightarrow> transcriber \<Rightarrow> bool" where
  "loads_cached L C F s0 h s =
     (list_all (\<lambda>ev. C ev (F s)) h \<and> (list_all (\<lambda>ev. \<not> L ev) h \<longrightarrow> F s = F s0))"

fun is_load_model :: "event \<Rightarrow> bool" where
  "is_load_model (Load_model n d c) = True"
| "is_load_model _ = False"

fun is_load_align_model :: "event \<Rightarrow> bool" where
  "is_load_align_model (Load_align_model l d) = True"
| "is_load_align_model _ = False"

fun is_instantiate :: "event \<Rightarrow> bool" where
  "is_instantiate (Instantiate p v) = True"
| "is_instantiate _ = False"

fun model_cached :: "ext \<Rightarrow> event \<Rightarrow> whisper_model option \<Rightarrow> bool" where
  "model_cached E (Load_model n d c) f =
     (case whisperx_load_model E n d c of Inr m \<Rightarrow> f = Some m | Inl e \<Rightarrow> True)"
| "model_cached E _ f = True"

fun align_cached :: "ext \<Rightarrow> event \<Rightarrow> align_model option \<times> dict option \<Rightarrow> bool" where
  "align_cached E (Load_align_model l d) f =
     (case whisperx_load_align_model E l d of Inr (am, md) \<Rightarrow> f = (Some am, Some md) | Inl e \<Rightarrow> True)"
| "align_cached E _ f = True"

fun diarizer_cached :: "ext \<Rightarrow> event \<Rightarrow> pipeline option \<Rightarrow> bool" where
  "diarizer_cached E (Instantiate p v) f =
     (case pipeline_instantiate E p v of Inr dm \<Rightarrow> f = Some dm | Inl e \<Rightarrow> True)"
| "diarizer_cached E _ f = True"

definition align_fields :: "transcriber \<Rightarrow> align_model option \<times> dict option" where
  "align_fields s = (align_model s, align_metadata s)"

section \<open>A concrete world\<close>

text \<open>
  Libraries in which every call succeeds, on a machine without a GPU and with one audio
  file, and variants of it in which one call fails.
\<close>

definition lib_ok :: ext where
  "lib_ok =
     \<lparr>cuda_is_available = False,
      cuda_device_capability = (0, 0),
      os_path_exists = (\<lambda>p. p = ''talk.wav''),
      module_dirname = ''/app'',
      py_format = (\<lambda>v. case v of Str x \<Rightarrow> x | Obj n \<Rightarrow> ''object''),
      whisperx_load_model = (\<lambda>n d c. Inr (WhisperModel (if n = ''small.en'' then 1 else 2))),
      attr_model_name = (\<lambda>m. Inr (if m = WhisperModel 1 then ''small.en'' else ''large-v2'')),
      whisperx_load_audio = (\<lambda>p. Inr (Audio 1)),
      model_transcribe = (\<lambda>m a b. Inr [(''segments'', Obj 1), (''language'', Str ''en'')]),
      whisperx_load_align_model = (\<lambda>l d. Inr (AlignModel 1, [(''language_code'', l)])),
      whisperx_align = (\<lambda>g am md a d c. Inr [(''segments'', Obj 2), (''word_segments'', Obj 3)]),
      speaker_diarization = (\<lambda>g e c. Inr (Pipeline 1)),
      open_read = (\<lambda>p. Inr (TextFile 1)),
      yaml_safe_load = (\<lambda>f. Inr [(''pipeline'', Obj 4)]),
      pipeline_instantiate = (\<lambda>p v. Inr p),
      pipeline_call = (\<lambda>p i. Inr (DiarizeSegments 1)),
      whisperx_assign_word_speakers = (\<lambda>g r. Inr ((''speakers'', Obj 5) # r))\<rparr>"

definition lib_no_model :: ext where
  "lib_no_model = lib_ok\<lparr>whisperx_load_model := (\<lambda>n d c. Inl (LibraryError ''out of memory''))\<rparr>"

definition lib_no_audio :: ext where
  "lib_no_audio = lib_ok\<lparr>whisperx_load_audio := (\<lambda>p. Inl (LibraryError ''cannot decode''))\<rparr>"

definition lib_no_align :: ext where
  "lib_no_align = lib_ok\<lparr>whisperx_align := (\<lambda>g am md a d c. Inl (LibraryError ''alignment failed''))\<rparr>"

text \<open>The fresh transcriber of \<open>lib_ok\<close>, and one that has loaded its three models.\<close>

definition fresh :: transcriber where
  "fresh = init lib_ok"

definition warm :: transcriber where
  "warm = fresh\<lparr>model := Some (WhisperModel 1), align_model := Some (AlignModel 1),
     align_metadata := Some [(''language_code'', Str ''en'')], diarize_model := Some (Pipeline 1)\<rparr>"

section \<open>Reasoning about statements\<close>

lemmas prog_defs =
  py_return_def py_raise_def py_eval_def py_print_def emit_def ext_call_def assign_def
  and_then_def try_except_def

lemmas read_defs = outcome_of_def state_after_def trace_of_def

lemma keepsI:
  "(\<And>s out s' t. I s \<Longrightarrow> m s = (out, s', t) \<Longrightarrow> I s' \<and> list_all P t) \<Longrightarrow> keeps I P m"
  unfolding keeps_def read_defs by (metis prod.collapse)

lemma keepsD: "keeps I P m \<Longrightarrow> I s \<Longrightarrow> m s = (out, s', t) \<Longrightarrow> I s' \<and> list_all P t"
  unfolding keeps_def read_defs by fastforce

lemma keeps_return: "keeps I P (py_return a)"
  by (simp add: keeps_def read_defs prog_defs)

lemma keeps_raise: "keeps I P (py_raise e)"
  by (simp add: keeps_def read_defs prog_defs)

lemma keeps_eval: "keeps I P (py_eval r)"
  by (simp add: keeps_def read_defs prog_defs split: sum.splits)

lemma keeps_print: "P (Print msg) \<Longrightarrow> keeps I P (py_print msg)"
  by (simp add: keeps_def read_defs prog_defs)

lemma keeps_emit: "P ev \<Longrightarrow> keeps I P (emit ev)"
  by (simp add: keeps_def read_defs prog_defs)

lemma keeps_call: "P ev \<Longrightarrow> keeps I P (ext_call ev r)"
  by (simp add: keeps_def read_defs prog_defs split: sum.splits)

lemma keeps_and_then:
  assumes "keeps I P m" and "\<And>a. keeps I P (f a)"
  shows "keeps I P (and_then m f)"
proof (rule keepsI)
  fix s out s' t
  assume I: "I s" and run: "and_then m f s = (out, s', t)"
  obtain o1 s1 t1 where m: "m s = (o1, s1, t1)" by (cases "m s") auto
  from keepsD[OF assms(1) I m] have I1: "I s1" and P1: "list_all P t1" by auto
  show "I s' \<and> list_all P t"
  proof (cases o1)
    case (Raises e)
    with run m I1 P1 show ?thesis by (simp add: and_then_def)
  next
    case (Returns a)
    obtain o2 s2 t2 where f: "f a s1 = (o2, s2, t2)" by (cases "f a s1") auto
    from keepsD[OF assms(2) I1 f] have "I s2" and "list_all P t2" by auto
    with run m Returns f P1 show ?thesis by (auto simp: and_then_def)
  qed
qed

lemma keeps_try_except:
  assumes "keeps I P m" and "\<And>e. keeps I P (h e)"
  shows "keeps I P (try_except m h)"
proof (rule keepsI)
  fix s out s' t
  assume I: "I s" and run: "try_except m h s = (out, s', t)"
  obtain o1 s1 t1 where m: "m s = (o1, s1, t1)" by (cases "m s") auto
  from keepsD[OF assms(1) I m] have I1: "I s1" and P1: "list_all P t1" by auto
  show "I s' \<and> list_all P t"
  proof (cases o1)
    case (Returns a)
    with run m I1 P1 show ?thesis by (simp add: try_except_def)
  next
    case (Raises e)
    obtain o2 s2 t2 where h: "h e s1 = (o2, s2, t2)" by (cases "h e s1") auto
    from keepsD[OF assms(2) I1 h] have "I s2" and "list_all P t2" by auto
    with run m Raises h P1 show ?thesis by (auto simp: try_except_def)
  qed
qed

lemma keeps_if: "keeps I P m \<Longrightarrow> keeps I P n \<Longrightarrow> keeps I P (if b then m else n)"
  by simp

lemmas keeps_rules =
  keeps_return keeps_raise keeps_eval keeps_print keeps_emit keeps_call keeps_and_then
  keeps_try_except keeps_if

text \<open>The methods of the transcriber, from the rules above.\<close>

lemma keeps_assign: "(\<And>s. I s \<Longrightarrow> I (upd s)) \<Longrightarrow> keeps I P (assign upd)"
  by (simp add: keeps_def read_defs prog_defs)

lemma keeps_load_model:
  assumes "\<And>s m. I s \<Longrightarrow> I (s\<lparr>model := Some m\<rparr>)" and "\<And>msg. P (Print msg)" and "\<And>n d c. P (Load_model n d c)"
  shows "keeps I P (load_model E)"
  using assms
  by (auto simp: keeps_def read_defs load_model_def load_model_test_def prog_defs split: option.splits sum.splits)

lemma keeps_load_align_model:
  assumes "\<And>s am md. I s \<Longrightarrow> I (s\<lparr>align_model := Some am, align_metadata := Some md\<rparr>)" and "\<And>msg. P (Print msg)" and "\<And>l d. P (Load_align_model l d)"
  shows "keeps I P (load_align_model E l)"
  using assms
  by (auto simp: keeps_def read_defs load_align_model_def load_align_model_test_def prog_defs split: option.splits sum.splits)

lemma keeps_load_diarize_model_cached:
  assumes "\<And>s. I s \<Longrightarrow> diarize_model s \<noteq> None"
  shows "keeps I P (load_diarize_model M E)"
proof (rule keepsI)
  fix s out s' t
  assume I: "I s" and run: "load_diarize_model M E s = (out, s', t)"
  from assms[OF I] obtain d where "diarize_model s = Some d" by auto
  with run I show "I s' \<and> list_all P t"
    by (auto simp: load_diarize_model_def py_return_def)
qed

lemma keeps_load_diarize_model:
  assumes "\<And>s m. I s \<Longrightarrow> I (s\<lparr>diarize_model := Some m\<rparr>)" and "\<And>msg. P (Print msg)" and "\<And>ev. builds_diarizer ev \<Longrightarrow> P ev"
  shows "keeps I P (load_diarize_model M E)"
  using assms
  by (auto simp: keeps_def read_defs load_diarize_model_def prog_defs Let_def split: option.splits sum.splits module.splits)

lemma keeps_align_step:
  assumes "\<And>l. keeps I P (load_align_model E l)" and "\<And>g am md a d c. P (Align g am md a d c)"
  shows "keeps I P (align_step E a r)"
proof -
  have last: "keeps I P (\<lambda>s. ext_call (Align g (align_model s) (align_metadata s) a (device s) False)
         (whisperx_align E g (align_model s) (align_metadata s) a (device s) False) s)" for g
    using assms(2) by (simp add: keeps_def read_defs ext_call_def split: sum.splits)
  show ?thesis
    unfolding align_step_def
    by (intro keeps_and_then keeps_eval assms(1) last)
qed

lemma keeps_diarize_step:
  assumes "keeps I P (load_diarize_model M E)" and "\<And>p i. P (Diarize p i)" and "\<And>g r. P (Assign_word_speakers g r)"
  shows "keeps I P (diarize_step M E p a r)"
proof -
  have mid: "keeps I P (\<lambda>s. case diarize_model s of
                 None \<Rightarrow> py_raise (TypeError (quote @ ''NoneType'' @ quote @ '' object is not callable'')) s
               | Some pl \<Rightarrow>
                   ext_call (Diarize pl (diarize_arg M p a))
                     (pipeline_call E pl (diarize_arg M p a)) s)"
    using assms(2) by (simp add: keeps_def read_defs ext_call_def py_raise_def split: sum.splits option.splits)
  show ?thesis
    unfolding diarize_step_def
    by (intro keeps_and_then assms(1) mid keeps_call assms(3))
qed

lemma keeps_transcribe_audio_try:
  assumes "\<And>l. al \<Longrightarrow> keeps I P (load_align_model E l)"
    and "di \<Longrightarrow> keeps I P (load_diarize_model M E)"
    and "\<And>ev. step_of ev \<noteq> None \<Longrightarrow> P ev" and "\<And>p. P (Load_audio p)"
  shows "keeps I P (transcribe_audio_try M E p al di)"
proof -
  have tr: "keeps I P (\<lambda>s. case model s of
                 None \<Rightarrow> py_raise (AttributeError (quote @ ''NoneType'' @ quote @ '' object has no attribute ''
                                      @ quote @ ''transcribe'' @ quote)) s
               | Some m \<Rightarrow> ext_call (Transcribe m a 16) (model_transcribe E m a 16) s)" for a
    using assms(3) by (simp add: keeps_def read_defs ext_call_def py_raise_def split: sum.splits option.splits)
  have al: "keeps I P (if al then align_step E a r else py_return r)" for a r
    using assms(1,3) by (auto intro!: keeps_align_step keeps_return)
  have di: "keeps I P (if di then diarize_step M E p a r else py_return r)" for a r
    using assms(2,3) by (auto intro!: keeps_diarize_step keeps_return)
  show ?thesis
    unfolding transcribe_audio_try_def
    by (intro keeps_and_then keeps_call assms(4) tr al di keeps_return)
qed

lemma transcribe_audio_unfold:
  "transcribe_audio M E p al di =
     (if \<not> os_path_exists E p then
        and_then (py_print (''Error: Audio file not found at '' @ p)) (\<lambda>_. py_return None)
      else
        and_then (load_model E) (\<lambda>_.
        try_except
          (and_then (transcribe_audio_try M E p al di) (\<lambda>result. py_return (Some result)))
          (\<lambda>e.
           and_then (py_print (''An error occurred during transcription: '' @ py_str e)) (\<lambda>_.
           and_then (emit (Print_exc e)) (\<lambda>_.
           py_return None)))))"
  by (rule ext) (simp add: transcribe_audio_def)

lemma keeps_transcribe_audio:
  assumes "keeps I P (load_model E)"
    and "\<And>l. al \<Longrightarrow> keeps I P (load_align_model E l)"
    and "di \<Longrightarrow> keeps I P (load_diarize_model M E)"
    and "\<And>ev. step_of ev \<noteq> None \<Longrightarrow> P ev" and "\<And>p. P (Load_audio p)"
    and "\<And>msg. P (Print msg)" and "\<And>e. P (Print_exc e)"
  shows "keeps I P (transcribe_audio M E p al di)"
  unfolding transcribe_audio_unfold
  by (intro keeps_if keeps_and_then keeps_try_except keeps_print keeps_return keeps_emit
      keeps_transcribe_audio_try assms)

lemma transcribe_audio_no_signal:
  "list_all (\<lambda>ev. \<not> is_signal ev) (trace_of (transcribe_audio M E p al di s))"
proof -
  have "keeps (\<lambda>_. True) (\<lambda>ev. \<not> is_signal ev) (transcribe_audio M E p al di)"
    by (intro keeps_transcribe_audio keeps_load_model keeps_load_align_model keeps_load_diarize_model)
       (auto elim: builds_diarizer.elims step_of.elims)
  then show ?thesis by (simp add: keeps_def)
qed

section \<open>The order of the stages\<close>

lemma and_thenE:
  assumes "and_then m f s = (out, s', t)"
  obtains (raised) e where "m s = (Raises e, s', t)" and "out = Raises e"
  | (continued) a s1 t1 t2 where "m s = (Returns a, s1, t1)" and "f a s1 = (out, s', t2)" and "t = t1 @ t2"
proof -
  obtain o1 s1 t1 where m: "m s = (o1, s1, t1)" by (cases "m s") auto
  show thesis
  proof (cases o1)
    case (Raises e)
    with assms m have "m s = (Raises e, s', t)" "out = Raises e" by (auto simp: and_then_def)
    then show thesis by (rule raised)
  next
    case (Returns a)
    obtain o2 s2 t2 where f: "f a s1 = (o2, s2, t2)" by (cases "f a s1") auto
    with assms m Returns have "m s = (Returns a, s1, t1)" "f a s1 = (out, s', t2)" "t = t1 @ t2"
      by (auto simp: and_then_def)
    then show thesis by (rule continued)
  qed
qed

lemma step_calls_simps:
  "step_calls [] = []"
  "step_calls (ev # t) = (if step_of ev \<noteq> None then ev # step_calls t else step_calls t)"
  by (simp_all add: step_calls_def)

lemma step_calls_append: "step_calls (a @ b) = step_calls a @ step_calls b"
  by (simp add: step_calls_def)

lemma steps_run_append: "steps_run (a @ b) = steps_run a @ steps_run b"
  by (induction a) (auto split: option.splits)

lemma steps_run_step_calls: "steps_run (step_calls t) = steps_run t"
  by (induction t) (auto simp: step_calls_def split: option.splits)

lemma steps_run_from_calls: "step_calls t = c \<Longrightarrow> steps_run t = steps_run c"
  using steps_run_step_calls[of t] by simp

lemma load_model_no_step: "step_calls (trace_of (load_model E s)) = []"
proof -
  have "keeps (\<lambda>_. True) (\<lambda>ev. step_of ev = None) (load_model E)"
    by (rule keeps_load_model) simp_all
  then have "list_all (\<lambda>ev. step_of ev = None) (trace_of (load_model E s))"
    by (simp add: keeps_def)
  then show ?thesis
    by (simp add: step_calls_def list_all_iff filter_empty_conv)
qed

lemma transcribe_stmt_spec:
  assumes "(case model s of
              None \<Rightarrow> py_raise x s
            | Some m \<Rightarrow> ext_call (Transcribe m a 16) (model_transcribe E m a 16) s) = (out, s', t)"
  shows "s' = s \<and> (case out of
           Raises e \<Rightarrow> step_calls t = [] \<or> (\<exists>m. step_calls t = [Transcribe m a 16])
         | Returns r0 \<Rightarrow> \<exists>m. model s = Some m \<and> model_transcribe E m a 16 = Inr r0
                          \<and> step_calls t = [Transcribe m a 16])"
  using assms
  by (auto simp: py_raise_def ext_call_def step_calls_def split: option.splits sum.splits outcome.splits)

lemma load_align_model_no_step: "step_calls (trace_of (load_align_model E l s)) = []"
proof -
  have "keeps (\<lambda>_. True) (\<lambda>ev. step_of ev = None) (load_align_model E l)"
    by (rule keeps_load_align_model) simp_all
  then have "list_all (\<lambda>ev. step_of ev = None) (trace_of (load_align_model E l s))"
    by (simp add: keeps_def)
  then show ?thesis by (simp add: step_calls_def list_all_iff filter_empty_conv)
qed

lemma load_diarize_model_no_step: "step_calls (trace_of (load_diarize_model M E s)) = []"
proof -
  have "keeps (\<lambda>_. True) (\<lambda>ev. step_of ev = None) (load_diarize_model M E)"
    by (rule keeps_load_diarize_model) (auto elim: builds_diarizer.elims)
  then have "list_all (\<lambda>ev. step_of ev = None) (trace_of (load_diarize_model M E s))"
    by (simp add: keeps_def)
  then show ?thesis by (simp add: step_calls_def list_all_iff filter_empty_conv)
qed

lemma align_step_spec:
  assumes "align_step E a r0 s = (out, s', t)"
  shows "case out of
       Raises e \<Rightarrow> step_calls t = [] \<or> (\<exists>g am md dev. step_calls t = [Align g am md a dev False])
     | Returns r1 \<Rightarrow> \<exists>g. subscript r0 ''segments'' = Inr g
          \<and> whisperx_align E g (align_model s') (align_metadata s') a (device s') False = Inr r1
          \<and> step_calls t = [Align g (align_model s') (align_metadata s') a (device s') False]"
  using assms unfolding align_step_def
proof (cases rule: and_thenE)
  case (raised e)
  then show ?thesis by (auto simp: py_eval_def step_calls_simps split: sum.splits)
next
  case (continued lang s1 t1 t2)
  note c1 = this
  from c1(1) have t1: "t1 = []" by (auto simp: py_eval_def split: sum.splits)
  from c1(2) show ?thesis
  proof (cases rule: and_thenE)
    case (raised e)
    with load_align_model_no_step[of E lang s1] t1 c1(3) show ?thesis by (simp add: trace_of_def)
  next
    case (continued u s2 t3 t4)
    note c2 = this
    from load_align_model_no_step[of E lang s1] c2(1) have t3: "step_calls t3 = []"
      by (simp add: trace_of_def)
    from c2(2) show ?thesis
    proof (cases rule: and_thenE)
      case (raised e)
      with t1 t3 c2(3) c1(3) show ?thesis
        by (auto simp: py_eval_def step_calls_append step_calls_simps split: sum.splits)
    next
      case (continued g s3 t5 t6)
      from continued(1) have g: "subscript r0 ''segments'' = Inr g" "t5 = []"
        by (auto simp: py_eval_def split: sum.splits)
      from continued(2) g t1 t3 c2(3) c1(3) \<open>t4 = t5 @ t6\<close> show ?thesis
        by (auto simp: ext_call_def step_calls_append step_calls_simps split: sum.splits outcome.splits)
    qed
  qed
qed

lemma diarize_step_spec:
  assumes "diarize_step M E p a r1 s = (out, s', t)"
  shows "case out of
       Raises e \<Rightarrow> step_calls t = [] \<or> (\<exists>pl. step_calls t = [Diarize pl (diarize_arg M p a)])
          \<or> (\<exists>pl ds. step_calls t = [Diarize pl (diarize_arg M p a), Assign_word_speakers ds r1])
     | Returns r \<Rightarrow> \<exists>pl ds. diarize_model s' = Some pl
          \<and> pipeline_call E pl (diarize_arg M p a) = Inr ds
          \<and> whisperx_assign_word_speakers E ds r1 = Inr r
          \<and> step_calls t = [Diarize pl (diarize_arg M p a), Assign_word_speakers ds r1]"
  using assms unfolding diarize_step_def
proof (cases rule: and_thenE)
  case (raised e)
  with load_diarize_model_no_step[of M E s] show ?thesis by (simp add: trace_of_def)
next
  case (continued u s1 t1 t2)
  note c1 = this
  from load_diarize_model_no_step[of M E s] c1(1) have t1: "step_calls t1 = []"
    by (simp add: trace_of_def)
  from c1(2) show ?thesis
  proof (cases rule: and_thenE)
    case (raised e)
    with t1 c1(3) show ?thesis
      by (auto simp: py_raise_def ext_call_def step_calls_append step_calls_simps
          split: option.splits sum.splits)
  next
    case (continued ds s2 t3 t4)
    from continued(1) obtain pl where pl: "diarize_model s2 = Some pl"
      "pipeline_call E pl (diarize_arg M p a) = Inr ds" "t3 = [Diarize pl (diarize_arg M p a)]"
      by (auto simp: py_raise_def ext_call_def split: option.splits sum.splits)
    from continued(2) pl t1 c1(3) \<open>t2 = t3 @ t4\<close> show ?thesis
      by (auto simp: ext_call_def step_calls_append step_calls_simps split: sum.splits outcome.splits)
  qed
qed

text \<open>The two optional stages, as the \<^verbatim>\<open>if\<close> statements of the try block have them.\<close>

lemma align_part_spec:
  assumes "(if al then align_step E a r0 else py_return r0) s = (out, s', t)"
  shows "case out of
       Raises e \<Rightarrow> al \<and> (step_calls t = [] \<or> (\<exists>g am md dev. step_calls t = [Align g am md a dev False]))
     | Returns r1 \<Rightarrow>
         (if al then \<exists>g. subscript r0 ''segments'' = Inr g
                 \<and> whisperx_align E g (align_model s') (align_metadata s') a (device s') False = Inr r1
                 \<and> step_calls t = [Align g (align_model s') (align_metadata s') a (device s') False]
          else r1 = r0 \<and> step_calls t = [])"
proof (cases al)
  case True
  with assms align_step_spec[of E a r0 s out s' t] show ?thesis
    by (cases out) auto
next
  case False
  with assms show ?thesis by (auto simp: py_return_def step_calls_simps)
qed

lemma diarize_part_spec:
  assumes "(if di then diarize_step M E p a r1 else py_return r1) s = (out, s', t)"
  shows "case out of
       Raises e \<Rightarrow> di \<and> (step_calls t = [] \<or> (\<exists>pl. step_calls t = [Diarize pl (diarize_arg M p a)])
          \<or> (\<exists>pl ds. step_calls t = [Diarize pl (diarize_arg M p a), Assign_word_speakers ds r1]))
     | Returns r \<Rightarrow>
         (if di then \<exists>pl ds. diarize_model s' = Some pl
                 \<and> pipeline_call E pl (diarize_arg M p a) = Inr ds
                 \<and> whisperx_assign_word_speakers E ds r1 = Inr r
                 \<and> step_calls t = [Diarize pl (diarize_arg M p a), Assign_word_speakers ds r1]
          else r = r1 \<and> step_calls t = [])"
proof (cases di)
  case True
  with assms diarize_step_spec[of M E p a r1 s out s' t] show ?thesis
    by (cases out) auto
next
  case False
  with assms show ?thesis by (auto simp: py_return_def step_calls_simps)
qed

lemma diarize_part_frame:
  assumes "(if di then diarize_step M E p a r1 else py_return r1) s = (out, s', t)"
  shows "model s' = model s \<and> align_model s' = align_model s \<and> align_metadata s' = align_metadata s
         \<and> device s' = device s"
proof -
  let ?I = "\<lambda>x. model x = model s \<and> align_model x = align_model s \<and> align_metadata x = align_metadata s
         \<and> device x = device s"
  have "keeps ?I (\<lambda>_. True) (if di then diarize_step M E p a r1 else py_return r1)"
    by (intro keeps_if keeps_diarize_step keeps_load_diarize_model keeps_return) simp_all
  from keepsD[OF this _ assms] show ?thesis by simp
qed

lemma align_part_frame:
  assumes "(if al then align_step E a r0 else py_return r0) s = (out, s', t)"
  shows "model s' = model s"
proof -
  have "keeps (\<lambda>x. model x = model s) (\<lambda>_. True) (if al then align_step E a r0 else py_return r0)"
    by (intro keeps_if keeps_align_step keeps_load_align_model keeps_return) simp_all
  from keepsD[OF this _ assms] show ?thesis by simp
qed

lemma transcribe_audio_try_steps:
  assumes run: "transcribe_audio_try M E p al di s = (out, s', t)"
  shows "prefix (steps_run t) (expected_steps al di)
     \<and> (\<forall>r. out = Returns r \<longrightarrow>
          steps_run t = expected_steps al di
          \<and> staged_pipeline M E p al di s' = Some (step_calls t, r))"
  using run unfolding transcribe_audio_try_def
proof (cases rule: and_thenE)
  case (raised e)
  then have "step_calls t = []" by (auto simp: ext_call_def step_calls_simps split: sum.splits)
  from steps_run_from_calls[OF this] raised(2) show ?thesis by simp
next
  case (continued a s1 t1 t2)
  note c1 = this
  from c1(1) have a: "whisperx_load_audio E p = Inr a" and t1: "step_calls t1 = []" and s1: "s1 = s"
    by (auto simp: ext_call_def step_calls_simps split: sum.splits)
  from c1(2) show ?thesis
  proof (cases rule: and_thenE)
    case (raised e)
    from transcribe_stmt_spec[OF raised(1)]
    have "step_calls t2 = [] \<or> (\<exists>m. step_calls t2 = [Transcribe m a 16])" by simp
    with t1 c1(3) have "step_calls t = [] \<or> (\<exists>m. step_calls t = [Transcribe m a 16])"
      by (simp add: step_calls_append)
    then have "steps_run t = [] \<or> steps_run t = [Transcription]"
      by (auto dest: steps_run_from_calls)
    with raised(2) show ?thesis by (auto simp: expected_steps_def)
  next
    case (continued r0 s2 t3 t4)
    note c2 = this
    from transcribe_stmt_spec[OF c2(1)] s1 obtain m where
      m: "model s2 = Some m" "model_transcribe E m a 16 = Inr r0"
      and t3: "step_calls t3 = [Transcribe m a 16]"
      by auto
    from c2(2) show ?thesis
    proof (cases rule: and_thenE)
      case (raised e)
      from align_part_spec[OF raised(1)]
      have al: al and "step_calls t4 = [] \<or> (\<exists>g am md dev. step_calls t4 = [Align g am md a dev False])"
        by auto
      with t1 t3 c1(3) c2(3) have "step_calls t = [Transcribe m a 16]
          \<or> (\<exists>g am md dev. step_calls t = [Transcribe m a 16, Align g am md a dev False])"
        by (auto simp: step_calls_append)
      then have "steps_run t = [Transcription] \<or> steps_run t = [Transcription, Alignment]"
        by (auto dest: steps_run_from_calls)
      with raised(2) al show ?thesis by (auto simp: expected_steps_def)
    next
      case (continued r1 s3 t5 t6)
      note c3 = this
      from align_part_spec[OF c3(1)] have
        ca: "if al then \<exists>g. subscript r0 ''segments'' = Inr g
                 \<and> whisperx_align E g (align_model s3) (align_metadata s3) a (device s3) False = Inr r1
                 \<and> step_calls t5 = [Align g (align_model s3) (align_metadata s3) a (device s3) False]
             else r1 = r0 \<and> step_calls t5 = []"
        by simp
      then have sa: "steps_run t5 = (if al then [Alignment] else [])"
        by (cases al) (auto dest: steps_run_from_calls)
      from align_part_frame[OF c3(1)] m have m3: "model s3 = Some m" by simp
      from c3(2) show ?thesis
      proof (cases rule: and_thenE)
        case (raised e)
        from diarize_part_spec[OF raised(1)]
        have di: di and "step_calls t6 = [] \<or> (\<exists>pl. step_calls t6 = [Diarize pl (diarize_arg M p a)])
          \<or> (\<exists>pl ds. step_calls t6 = [Diarize pl (diarize_arg M p a), Assign_word_speakers ds r1])"
          by auto
        then have "steps_run t6 = [] \<or> steps_run t6 = [Diarization]
            \<or> steps_run t6 = [Diarization, Speaker_assignment]"
          by (auto dest: steps_run_from_calls)
        moreover have "steps_run t = [Transcription] @ (if al then [Alignment] else []) @ steps_run t6"
          using sa c1(3) c2(3) c3(3)
          by (simp add: steps_run_append steps_run_from_calls[OF t1] steps_run_from_calls[OF t3])
        ultimately show ?thesis using raised(2) di by (auto simp: expected_steps_def)
      next
        case (continued r2 s4 t7 t8)
        note c4 = this
        from c4(2) have out: "out = Returns r2" and t8: "t8 = []" and s4: "s4 = s'"
          by (auto simp: py_return_def)
        from diarize_part_spec[OF c4(1)] s4 have
          cd: "if di then \<exists>pl ds. diarize_model s' = Some pl
                 \<and> pipeline_call E pl (diarize_arg M p a) = Inr ds
                 \<and> whisperx_assign_word_speakers E ds r1 = Inr r2
                 \<and> step_calls t7 = [Diarize pl (diarize_arg M p a), Assign_word_speakers ds r1]
               else r2 = r1 \<and> step_calls t7 = []"
          by (auto split: if_splits)
        then have sd: "steps_run t7 = (if di then [Diarization, Speaker_assignment] else [])"
          by (cases di) (auto dest: steps_run_from_calls)
        from diarize_part_frame[OF c4(1)] s4 m3 have fr: "model s' = Some m"
          "align_model s' = align_model s3" "align_metadata s' = align_metadata s3" "device s' = device s3"
          by simp_all
        have calls: "step_calls t = [Transcribe m a 16] @ step_calls t5 @ step_calls t7"
          using t1 t3 t8 c1(3) c2(3) c3(3) c4(3) by (simp add: step_calls_append)
        have full: "steps_run t = expected_steps al di"
          using sa sd t8 c1(3) c2(3) c3(3) c4(3)
          by (simp add: steps_run_append expected_steps_def steps_run_from_calls[OF t1]
              steps_run_from_calls[OF t3])
        have staged: "staged_pipeline M E p al di s' = Some (step_calls t, r2)"
          using a m(2) fr ca cd calls
          by (cases al; cases di) (auto simp: staged_pipeline_def)
        from full staged out show ?thesis by simp
      qed
    qed
  qed
qed

lemma transcribe_audio_cases:
  assumes "os_path_exists E p"
  obtains (load_raises) e s1 t1 where
      "load_model E s = (Raises e, s1, t1)"
      "transcribe_audio M E p al di s = (Raises e, s1, t1)"
  | (try_raises) s1 t1 e s2 t2 where
      "load_model E s = (Returns (), s1, t1)"
      "transcribe_audio_try M E p al di s1 = (Raises e, s2, t2)"
      "transcribe_audio M E p al di s =
         (Returns None, s2,
          t1 @ t2 @ [Print (''An error occurred during transcription: '' @ py_str e), Print_exc e])"
  | (try_returns) s1 t1 r s2 t2 where
      "load_model E s = (Returns (), s1, t1)"
      "transcribe_audio_try M E p al di s1 = (Returns r, s2, t2)"
      "transcribe_audio M E p al di s = (Returns (Some r), s2, t1 @ t2)"
proof -
  obtain o1 s1 t1 where lm: "load_model E s = (o1, s1, t1)" by (cases "load_model E s") auto
  obtain o2 s2 t2 where tr: "transcribe_audio_try M E p al di s1 = (o2, s2, t2)"
    by (cases "transcribe_audio_try M E p al di s1") auto
  show thesis
  proof (cases o1)
    case (Raises e)
    with lm assms have "transcribe_audio M E p al di s = (Raises e, s1, t1)"
      by (simp add: transcribe_audio_def prog_defs)
    with lm Raises show thesis by (auto intro: load_raises)
  next
    case (Returns u)
    show thesis
    proof (cases o2)
      case (Raises e)
      with lm tr Returns assms have "transcribe_audio M E p al di s =
         (Returns None, s2,
          t1 @ t2 @ [Print (''An error occurred during transcription: '' @ py_str e), Print_exc e])"
        by (simp add: transcribe_audio_def prog_defs)
      with lm tr Returns Raises show thesis by (auto intro: try_raises)
    next
      case (Returns r)
      with lm tr \<open>o1 = Returns u\<close> assms have "transcribe_audio M E p al di s = (Returns (Some r), s2, t1 @ t2)"
        by (simp add: transcribe_audio_def prog_defs)
      with lm tr \<open>o1 = Returns u\<close> Returns show thesis by (auto intro: try_returns)
    qed
  qed
qed

section \<open>Loaded models stay cached\<close>

lemma hoareI:
  "(\<And>h s out s' t. P h s \<Longrightarrow> m s = (out, s', t) \<Longrightarrow> Q (h @ t) s') \<Longrightarrow> hoare P m Q"
  unfolding hoare_def read_defs by (metis prod.collapse)

lemma hoareD: "hoare P m Q \<Longrightarrow> P h s \<Longrightarrow> m s = (out, s', t) \<Longrightarrow> Q (h @ t) s'"
  unfolding hoare_def read_defs by fastforce

lemma hoare_post: "hoare P m Q \<Longrightarrow> (\<And>h s. Q h s \<Longrightarrow> R h s) \<Longrightarrow> hoare P m R"
  by (simp add: hoare_def)

lemma hoare_and_then:
  assumes "hoare P m Q" and "\<And>a. hoare Q (f a) R" and "\<And>h s. Q h s \<Longrightarrow> R h s"
  shows "hoare P (and_then m f) R"
proof (rule hoareI)
  fix h s out s' t
  assume P: "P h s" and run: "and_then m f s = (out, s', t)"
  obtain o1 s1 t1 where m: "m s = (o1, s1, t1)" by (cases "m s") auto
  from hoareD[OF assms(1) P m] have Q: "Q (h @ t1) s1" .
  show "R (h @ t) s'"
  proof (cases o1)
    case (Raises e)
    with run m assms(3)[OF Q] show ?thesis by (simp add: and_then_def)
  next
    case (Returns a)
    obtain o2 s2 t2 where f: "f a s1 = (o2, s2, t2)" by (cases "f a s1") auto
    from hoareD[OF assms(2) Q f] run m Returns f show ?thesis by (auto simp: and_then_def)
  qed
qed

lemma hoare_try_except:
  assumes "hoare P m Q" and "\<And>e. hoare Q (g e) R" and "\<And>h s. Q h s \<Longrightarrow> R h s"
  shows "hoare P (try_except m g) R"
proof (rule hoareI)
  fix h s out s' t
  assume P: "P h s" and run: "try_except m g s = (out, s', t)"
  obtain o1 s1 t1 where m: "m s = (o1, s1, t1)" by (cases "m s") auto
  from hoareD[OF assms(1) P m] have Q: "Q (h @ t1) s1" .
  show "R (h @ t) s'"
  proof (cases o1)
    case (Returns a)
    with run m assms(3)[OF Q] show ?thesis by (simp add: try_except_def)
  next
    case (Raises e)
    obtain o2 s2 t2 where f: "g e s1 = (o2, s2, t2)" by (cases "g e s1") auto
    from hoareD[OF assms(2) Q f] run m Raises f show ?thesis by (auto simp: try_except_def)
  qed
qed

lemma hoare_if: "hoare P m Q \<Longrightarrow> hoare P n Q \<Longrightarrow> hoare P (if b then m else n) Q"
  by simp

lemma untouched_cached: "untouched L F s0 h s \<Longrightarrow> loads_cached L C F s0 h s"
  if "\<And>ev f. \<not> L ev \<Longrightarrow> C ev f"
  using that by (auto simp: untouched_def loads_cached_def list_all_iff)

lemma neutral_untouched:
  assumes "\<And>x. keeps (\<lambda>s. F s = x) (\<lambda>ev. \<not> L ev) m"
  shows "hoare (untouched L F s0) m (untouched L F s0)"
proof (rule hoareI)
  fix h s out s' t
  assume "untouched L F s0 h s" and run: "m s = (out, s', t)"
  with keepsD[OF assms[of "F s"] _ run] show "untouched L F s0 (h @ t) s'"
    by (simp add: untouched_def)
qed

lemma neutral_cached:
  assumes "\<And>x. keeps (\<lambda>s. F s = x) (\<lambda>ev. \<not> L ev) m" and "\<And>ev f. \<not> L ev \<Longrightarrow> C ev f"
  shows "hoare (loads_cached L C F s0) m (loads_cached L C F s0)"
proof (rule hoareI)
  fix h s out s' t
  assume "loads_cached L C F s0 h s" and run: "m s = (out, s', t)"
  with keepsD[OF assms(1)[of "F s"] _ run] assms(2) show "loads_cached L C F s0 (h @ t) s'"
    by (auto simp: loads_cached_def list_all_iff)
qed

lemma load_unit:
  assumes "\<And>s out s' t. m s = (out, s', t) \<Longrightarrow>
             list_all (\<lambda>ev. C ev (F s')) t \<and> (list_all (\<lambda>ev. \<not> L ev) t \<longrightarrow> F s' = F s)"
    and "\<And>ev f. \<not> L ev \<Longrightarrow> C ev f"
  shows "hoare (untouched L F s0) m (loads_cached L C F s0)"
proof (rule hoareI)
  fix h s out s' t
  assume "untouched L F s0 h s" and run: "m s = (out, s', t)"
  with assms(1)[OF run] assms(2) show "loads_cached L C F s0 (h @ t) s'"
    by (auto simp: untouched_def loads_cached_def list_all_iff)
qed

lemma not_load_model_cached: "\<not> is_load_model ev \<Longrightarrow> model_cached E ev f"
  by (cases ev) simp_all

lemma not_load_align_cached: "\<not> is_load_align_model ev \<Longrightarrow> align_cached E ev f"
  by (cases ev) simp_all

lemma not_instantiate_cached: "\<not> is_instantiate ev \<Longrightarrow> diarizer_cached E ev f"
  by (cases ev) simp_all

lemma load_model_caches:
  "hoare (untouched is_load_model model s0) (load_model E)
     (loads_cached is_load_model (model_cached E) model s0)"
proof (rule load_unit)
  fix s out s' t
  assume "load_model E s = (out, s', t)"
  then show "list_all (\<lambda>ev. model_cached E ev (model s')) t
      \<and> (list_all (\<lambda>ev. \<not> is_load_model ev) t \<longrightarrow> model s' = model s)"
    by (auto simp: load_model_def load_model_test_def prog_defs split: option.splits sum.splits if_splits)
qed (rule not_load_model_cached)

lemma load_align_model_caches:
  "hoare (untouched is_load_align_model align_fields s0) (load_align_model E l)
     (loads_cached is_load_align_model (align_cached E) align_fields s0)"
proof (rule load_unit)
  fix s out s' t
  assume "load_align_model E l s = (out, s', t)"
  then show "list_all (\<lambda>ev. align_cached E ev (align_fields s')) t
      \<and> (list_all (\<lambda>ev. \<not> is_load_align_model ev) t \<longrightarrow> align_fields s' = align_fields s)"
    by (auto simp: load_align_model_def load_align_model_test_def prog_defs align_fields_def
        split: option.splits sum.splits if_splits)
qed (rule not_load_align_cached)

lemma load_diarize_model_caches:
  "hoare (untouched is_instantiate diarize_model s0) (load_diarize_model M E)
     (loads_cached is_instantiate (diarizer_cached E) diarize_model s0)"
proof (rule load_unit)
  fix s out s' t
  assume "load_diarize_model M E s = (out, s', t)"
  then show "list_all (\<lambda>ev. diarizer_cached E ev (diarize_model s')) t
      \<and> (list_all (\<lambda>ev. \<not> is_instantiate ev) t \<longrightarrow> diarize_model s' = diarize_model s)"
    by (auto simp: load_diarize_model_def prog_defs Let_def
        split: option.splits sum.splits if_splits module.splits)
qed (rule not_instantiate_cached)


lemma keeps_transcribe_stmt:
  assumes "\<And>m. P (Transcribe m a 16)"
  shows "keeps I P (\<lambda>s. case model s of
                 None \<Rightarrow> py_raise x s
               | Some m \<Rightarrow> ext_call (Transcribe m a 16) (model_transcribe E m a 16) s)"
  using assms by (simp add: keeps_def read_defs ext_call_def py_raise_def split: sum.splits option.splits)

lemma keeps_align_call:
  assumes "\<And>am md d. P (Align g am md a d False)"
  shows "keeps I P (\<lambda>s. ext_call (Align g (align_model s) (align_metadata s) a (device s) False)
         (whisperx_align E g (align_model s) (align_metadata s) a (device s) False) s)"
  using assms by (simp add: keeps_def read_defs ext_call_def split: sum.splits)

lemma keeps_diarize_call:
  assumes "\<And>pl. P (Diarize pl i)"
  shows "keeps I P (\<lambda>s. case diarize_model s of
                 None \<Rightarrow> py_raise x s
               | Some pl \<Rightarrow> ext_call (Diarize pl i) (pipeline_call E pl i) s)"
  using assms by (simp add: keeps_def read_defs ext_call_def py_raise_def split: sum.splits option.splits)

lemma handler_keeps:
  assumes "\<And>msg. P (Print msg)" and "P (Print_exc e)"
  shows "keeps I P (and_then (py_print (''An error occurred during transcription: '' @ py_str e)) (\<lambda>_.
           and_then (emit (Print_exc e)) (\<lambda>_. py_return None)))"
  by (intro keeps_and_then keeps_print keeps_emit keeps_return assms)

text \<open>The acoustic model.\<close>

lemma transcribe_audio_caches_model:
  "hoare (untouched is_load_model model s0) (transcribe_audio M E p al di)
     (loads_cached is_load_model (model_cached E) model s0)"
proof -
  let ?U = "untouched is_load_model model s0"
  let ?C = "loads_cached is_load_model (model_cached E) model s0"
  have UC: "?C h s" if "?U h s" for h s
    using that by (rule untouched_cached[rotated]) (rule not_load_model_cached)
  have missing: "hoare ?U (and_then (py_print msg) (\<lambda>_. py_return None)) ?C" for msg
    by (rule hoare_post[OF neutral_untouched UC]) (intro keeps_and_then keeps_print keeps_return, simp)
  have rest: "hoare ?C (try_except
          (and_then (transcribe_audio_try M E p al di) (\<lambda>result. py_return (Some result)))
          (\<lambda>e. and_then (py_print (''An error occurred during transcription: '' @ py_str e)) (\<lambda>_.
           and_then (emit (Print_exc e)) (\<lambda>_. py_return None)))) ?C"
    by (rule neutral_cached[OF _ not_load_model_cached])
       (intro keeps_try_except keeps_and_then keeps_return handler_keeps keeps_transcribe_audio_try
          keeps_load_align_model keeps_load_diarize_model, auto elim: builds_diarizer.elims step_of.elims)
  show ?thesis
    unfolding transcribe_audio_unfold
    by (intro hoare_if missing hoare_and_then[where Q = ?C] load_model_caches rest)
qed


text \<open>The alignment model and its metadata.\<close>

lemma align_step_caches:
  "hoare (untouched is_load_align_model align_fields s0) (align_step E a r)
     (loads_cached is_load_align_model (align_cached E) align_fields s0)"
proof -
  let ?U = "untouched is_load_align_model align_fields s0"
  let ?C = "loads_cached is_load_align_model (align_cached E) align_fields s0"
  have UC: "?C h s" if "?U h s" for h s
    using that by (rule untouched_cached[rotated]) (rule not_load_align_cached)
  have e1: "hoare ?U (py_eval x) ?U" for x :: "exn + val"
    by (rule neutral_untouched) (rule keeps_eval)
  have e2: "hoare ?C (py_eval x) ?C" for x :: "exn + val"
    by (rule neutral_cached[OF _ not_load_align_cached]) (rule keeps_eval)
  have call: "hoare ?C (\<lambda>s. ext_call (Align g (align_model s) (align_metadata s) a (device s) False)
         (whisperx_align E g (align_model s) (align_metadata s) a (device s) False) s) ?C" for g
    by (rule neutral_cached[OF _ not_load_align_cached]) (rule keeps_align_call, simp)
  show ?thesis
    unfolding align_step_def
    by (rule hoare_and_then[where Q = ?U, OF e1 _ UC],
        rule hoare_and_then[where Q = ?C, OF load_align_model_caches],
        rule hoare_and_then[where Q = ?C, OF e2 call])
qed

lemma transcribe_audio_try_caches_align:
  "hoare (untouched is_load_align_model align_fields s0) (transcribe_audio_try M E p al di)
     (loads_cached is_load_align_model (align_cached E) align_fields s0)"
proof -
  let ?U = "untouched is_load_align_model align_fields s0"
  let ?C = "loads_cached is_load_align_model (align_cached E) align_fields s0"
  have UC: "?C h s" if "?U h s" for h s
    using that by (rule untouched_cached[rotated]) (rule not_load_align_cached)
  have audio: "hoare ?U (ext_call (Load_audio p) (whisperx_load_audio E p)) ?U"
    by (rule neutral_untouched) (rule keeps_call, simp)
  have tr: "hoare ?U (\<lambda>s. case model s of
                 None \<Rightarrow> py_raise x s
               | Some m \<Rightarrow> ext_call (Transcribe m a 16) (model_transcribe E m a 16) s) ?U" for x a
    by (rule neutral_untouched) (rule keeps_transcribe_stmt, simp)
  have al: "hoare ?U (if al then align_step E a r else py_return r) ?C" for a r
    by (intro hoare_if align_step_caches hoare_post[OF neutral_untouched UC] keeps_return)
  have di: "hoare ?C (if di then diarize_step M E p a r else py_return r) ?C" for a r
    by (rule neutral_cached[OF _ not_load_align_cached])
       (intro keeps_if keeps_diarize_step keeps_load_diarize_model keeps_return,
        auto simp: align_fields_def elim: builds_diarizer.elims)
  have ret: "hoare ?C (py_return r) ?C" for r :: dict
    by (rule neutral_cached[OF _ not_load_align_cached]) (rule keeps_return)
  show ?thesis
    unfolding transcribe_audio_try_def
    by (rule hoare_and_then[where Q = ?U, OF audio _ UC],
        rule hoare_and_then[where Q = ?U, OF tr _ UC],
        rule hoare_and_then[where Q = ?C, OF al],
        rule hoare_and_then[where Q = ?C, OF di ret])
qed

lemma transcribe_audio_caches_align:
  "hoare (untouched is_load_align_model align_fields s0) (transcribe_audio M E p al di)
     (loads_cached is_load_align_model (align_cached E) align_fields s0)"
proof -
  let ?U = "untouched is_load_align_model align_fields s0"
  let ?C = "loads_cached is_load_align_model (align_cached E) align_fields s0"
  have UC: "?C h s" if "?U h s" for h s
    using that by (rule untouched_cached[rotated]) (rule not_load_align_cached)
  have missing: "hoare ?U (and_then (py_print msg) (\<lambda>_. py_return None)) ?C" for msg
    by (rule hoare_post[OF neutral_untouched UC]) (intro keeps_and_then keeps_print keeps_return, simp)
  have lm: "hoare ?U (load_model E) ?U"
    by (rule neutral_untouched) (rule keeps_load_model, simp_all add: align_fields_def)
  have ret: "hoare ?C (py_return r) ?C" for r :: "dict option"
    by (rule neutral_cached[OF _ not_load_align_cached]) (rule keeps_return)
  have handler: "hoare ?C (and_then (py_print (''An error occurred during transcription: '' @ py_str e)) (\<lambda>_.
           and_then (emit (Print_exc e)) (\<lambda>_. py_return None))) ?C" for e
    by (rule neutral_cached[OF _ not_load_align_cached]) (rule handler_keeps, simp_all)
  have body: "hoare ?U (and_then (transcribe_audio_try M E p al di) (\<lambda>result. py_return (Some result))) ?C"
    by (rule hoare_and_then[where Q = ?C, OF transcribe_audio_try_caches_align ret])
  have rest: "hoare ?U (try_except
          (and_then (transcribe_audio_try M E p al di) (\<lambda>result. py_return (Some result)))
          (\<lambda>e. and_then (py_print (''An error occurred during transcription: '' @ py_str e)) (\<lambda>_.
           and_then (emit (Print_exc e)) (\<lambda>_. py_return None)))) ?C"
    by (rule hoare_try_except[where Q = ?C, OF body handler])
  show ?thesis
    unfolding transcribe_audio_unfold
    by (intro hoare_if missing hoare_and_then[where Q = ?U, OF lm rest UC])
qed

text \<open>The diarization pipeline.\<close>

lemma diarize_step_caches:
  "hoare (untouched is_instantiate diarize_model s0) (diarize_step M E p a r)
     (loads_cached is_instantiate (diarizer_cached E) diarize_model s0)"
proof -
  let ?C = "loads_cached is_instantiate (diarizer_cached E) diarize_model s0"
  have call: "hoare ?C (\<lambda>s. case diarize_model s of
                 None \<Rightarrow> py_raise x s
               | Some pl \<Rightarrow> ext_call (Diarize pl i) (pipeline_call E pl i) s) ?C" for x i
    by (rule neutral_cached[OF _ not_instantiate_cached]) (rule keeps_diarize_call, simp)
  have asg: "hoare ?C (ext_call (Assign_word_speakers g r) x) ?C" for g and x :: "exn + dict"
    by (rule neutral_cached[OF _ not_instantiate_cached]) (rule keeps_call, simp)
  show ?thesis
    unfolding diarize_step_def
    by (rule hoare_and_then[where Q = ?C, OF load_diarize_model_caches],
        rule hoare_and_then[where Q = ?C, OF call asg])
qed

lemma transcribe_audio_try_caches_diarizer:
  "hoare (untouched is_instantiate diarize_model s0) (transcribe_audio_try M E p al di)
     (loads_cached is_instantiate (diarizer_cached E) diarize_model s0)"
proof -
  let ?U = "untouched is_instantiate diarize_model s0"
  let ?C = "loads_cached is_instantiate (diarizer_cached E) diarize_model s0"
  have UC: "?C h s" if "?U h s" for h s
    using that by (rule untouched_cached[rotated]) (rule not_instantiate_cached)
  have audio: "hoare ?U (ext_call (Load_audio p) (whisperx_load_audio E p)) ?U"
    by (rule neutral_untouched) (rule keeps_call, simp)
  have tr: "hoare ?U (\<lambda>s. case model s of
                 None \<Rightarrow> py_raise x s
               | Some m \<Rightarrow> ext_call (Transcribe m a 16) (model_transcribe E m a 16) s) ?U" for x a
    by (rule neutral_untouched) (rule keeps_transcribe_stmt, simp)
  have al: "hoare ?U (if al then align_step E a r else py_return r) ?U" for a r
    by (rule neutral_untouched)
       (intro keeps_if keeps_align_step keeps_load_align_model keeps_return, simp_all)
  have di: "hoare ?U (if di then diarize_step M E p a r else py_return r) ?C" for a r
    by (intro hoare_if diarize_step_caches hoare_post[OF neutral_untouched UC] keeps_return)
  have ret: "hoare ?C (py_return r) ?C" for r :: dict
    by (rule neutral_cached[OF _ not_instantiate_cached]) (rule keeps_return)
  show ?thesis
    unfolding transcribe_audio_try_def
    by (rule hoare_and_then[where Q = ?U, OF audio _ UC],
        rule hoare_and_then[where Q = ?U, OF tr _ UC],
        rule hoare_and_then[where Q = ?U, OF al _ UC],
        rule hoare_and_then[where Q = ?C, OF di ret])
qed

lemma transcribe_audio_caches_diarizer:
  "hoare (untouched is_instantiate diarize_model s0) (transcribe_audio M E p al di)
     (loads_cached is_instantiate (diarizer_cached E) diarize_model s0)"
proof -
  let ?U = "untouched is_instantiate diarize_model s0"
  let ?C = "loads_cached is_instantiate (diarizer_cached E) diarize_model s0"
  have UC: "?C h s" if "?U h s" for h s
    using that by (rule untouched_cached[rotated]) (rule not_instantiate_cached)
  have missing: "hoare ?U (and_then (py_print msg) (\<lambda>_. py_return None)) ?C" for msg
    by (rule hoare_post[OF neutral_untouched UC]) (intro keeps_and_then keeps_print keeps_return, simp)
  have lm: "hoare ?U (load_model E) ?U"
    by (rule neutral_untouched) (rule keeps_load_model, simp_all)
  have ret: "hoare ?C (py_return r) ?C" for r :: "dict option"
    by (rule neutral_cached[OF _ not_instantiate_cached]) (rule keeps_return)
  have handler: "hoare ?C (and_then (py_print (''An error occurred during transcription: '' @ py_str e)) (\<lambda>_.
           and_then (emit (Print_exc e)) (\<lambda>_. py_return None))) ?C" for e
    by (rule neutral_cached[OF _ not_instantiate_cached]) (rule handler_keeps, simp_all)
  have body: "hoare ?U (and_then (transcribe_audio_try M E p al di) (\<lambda>result. py_return (Some result))) ?C"
    by (rule hoare_and_then[where Q = ?C, OF transcribe_audio_try_caches_diarizer ret])
  have rest: "hoare ?U (try_except
          (and_then (transcribe_audio_try M E p al di) (\<lambda>result. py_return (Some result)))
          (\<lambda>e. and_then (py_print (''An error occurred during transcription: '' @ py_str e)) (\<lambda>_.
           and_then (emit (Print_exc e)) (\<lambda>_. py_return None)))) ?C"
    by (rule hoare_try_except[where Q = ?C, OF body handler])
  show ?thesis
    unfolding transcribe_audio_unfold
    by (intro hoare_if missing hoare_and_then[where Q = ?U, OF lm rest UC])
qed

section \<open>Concrete runs\<close>

lemmas meth_defs =
  transcribe_audio_def transcribe_audio_try_def align_step_def diarize_step_def diarize_arg_def
  load_model_def load_model_test_def load_align_model_def load_align_model_test_def
  load_diarize_model_def subscript_def path_join_def quote_def

lemmas world_defs = lib_ok_def lib_no_model_def lib_no_audio_def lib_no_align_def fresh_def warm_def init_def

lemma fresh_fields:
  "device fresh = ''cpu''" "compute_type fresh = ''int8''" "model fresh = None"
  "align_model fresh = None" "align_metadata fresh = None" "diarize_model fresh = None"
  "model_name fresh = ''small.en''"
  by (simp_all add: fresh_def init_def lib_ok_def)

lemma warm_fields:
  "device warm = ''cpu''" "compute_type warm = ''int8''" "model warm = Some (WhisperModel 1)"
  "align_model warm = Some (AlignModel 1)" "align_metadata warm = Some [(''language_code'', Str ''en'')]"
  "diarize_model warm = Some (Pipeline 1)" "model_name warm = ''small.en''"
  by (simp_all add: warm_def fresh_def init_def lib_ok_def)

lemma lib_ok_calls:
  "os_path_exists lib_ok ''talk.wav''"
  "whisperx_load_model lib_ok ''small.en'' ''cpu'' ''int8'' = Inr (WhisperModel 1)"
  "attr_model_name lib_ok (WhisperModel 1) = Inr ''small.en''"
  "whisperx_load_align_model lib_ok (Str ''de'') ''cpu'' = Inr (AlignModel 1, [(''language_code'', Str ''de'')])"
  by (simp_all add: lib_ok_def)

lemma run_fresh_gui:
  "transcribe_audio Gui_py lib_ok ''talk.wav'' True True fresh =
    (Returns (Some [(''speakers'', Obj 5), (''segments'', Obj 2), (''word_segments'', Obj 3)]),
     warm,
     [Print ''Loading WhisperX model: small.en'',
      Load_model ''small.en'' ''cpu'' ''int8'',
      Print ''WhisperX model loaded successfully.'',
      Load_audio ''talk.wav'',
      Transcribe (WhisperModel 1) (Audio 1) 16,
      Print ''Loading alignment model for language: en'',
      Load_align_model (Str ''en'') ''cpu'',
      Print ''Alignment model loaded successfully.'',
      Align (Obj 1) (Some (AlignModel 1)) (Some [(''language_code'', Str ''en'')]) (Audio 1) ''cpu'' False,
      Print ''Loading diarization model...'',
      New_SpeakerDiarization ''/app/models/segmentation-3.0/pytorch_model.bin''
        ''/app/models/wespeaker-voxceleb-resnet34-LM/pytorch_model.bin'' ''AgglomerativeClustering'',
      Open_file ''/app/models/speaker-diarization-3.1/config.yaml'',
      Yaml_safe_load (TextFile 1),
      Instantiate (Pipeline 1) (Obj 4),
      Print ''Diarization model loaded successfully.'',
      Diarize (Pipeline 1) (File_path ''talk.wav''),
      Assign_word_speakers (DiarizeSegments 1) [(''segments'', Obj 2), (''word_segments'', Obj 3)]])"
  by (simp add: meth_defs prog_defs world_defs)

lemma run_warm_gui:
  "transcribe_audio Gui_py lib_ok ''talk.wav'' False False warm =
    (Returns (Some [(''segments'', Obj 1), (''language'', Str ''en'')]), warm,
     [Load_audio ''talk.wav'', Transcribe (WhisperModel 1) (Audio 1) 16])"
  by (simp add: meth_defs prog_defs world_defs)

lemma load_model_fresh_no_audio:
  "load_model lib_no_audio fresh =
     (Returns (), fresh\<lparr>model := Some (WhisperModel 1)\<rparr>,
      [Print ''Loading WhisperX model: small.en'', Load_model ''small.en'' ''cpu'' ''int8'',
       Print ''WhisperX model loaded successfully.''])"
  by (simp add: meth_defs prog_defs world_defs)

lemma try_no_audio:
  "transcribe_audio_try Gui_py lib_no_audio ''talk.wav'' True True (fresh\<lparr>model := Some (WhisperModel 1)\<rparr>) =
     (Raises (LibraryError ''cannot decode''), fresh\<lparr>model := Some (WhisperModel 1)\<rparr>, [Load_audio ''talk.wav''])"
  by (simp add: meth_defs prog_defs world_defs)

lemma lib_no_audio_exists: "os_path_exists lib_no_audio ''talk.wav''"
  by (simp add: lib_no_audio_def lib_ok_def)

lemma lib_no_align_exists: "os_path_exists lib_no_align ''talk.wav''"
  by (simp add: lib_no_align_def lib_ok_def)

lemma lib_no_align_calls:
  "whisperx_load_model lib_no_align ''small.en'' ''cpu'' ''int8'' = Inr (WhisperModel 1)"
  "whisperx_load_align_model lib_no_align (Str ''en'') ''cpu'' = Inr (AlignModel 1, [(''language_code'', Str ''en'')])"
  by (simp_all add: lib_no_align_def lib_ok_def)

lemma run_no_align:
  "transcribe_audio Gui_py lib_no_align ''talk.wav'' True True fresh =
    (Returns None,
     fresh\<lparr>model := Some (WhisperModel 1), align_model := Some (AlignModel 1),
       align_metadata := Some [(''language_code'', Str ''en'')]\<rparr>,
     [Print ''Loading WhisperX model: small.en'',
      Load_model ''small.en'' ''cpu'' ''int8'',
      Print ''WhisperX model loaded successfully.'',
      Load_audio ''talk.wav'',
      Transcribe (WhisperModel 1) (Audio 1) 16,
      Print ''Loading alignment model for language: en'',
      Load_align_model (Str ''en'') ''cpu'',
      Print ''Alignment model loaded successfully.'',
      Align (Obj 1) (Some (AlignModel 1)) (Some [(''language_code'', Str ''en'')]) (Audio 1) ''cpu'' False,
      Print ''An error occurred during transcription: alignment failed'',
      Print_exc (LibraryError ''alignment failed'')])"
  by (simp add: meth_defs prog_defs world_defs)

lemma run_no_audio:
  "transcribe_audio Gui_py lib_no_audio ''talk.wav'' True True fresh =
    (Returns None, fresh\<lparr>model := Some (WhisperModel 1)\<rparr>,
     [Print ''Loading WhisperX model: small.en'',
      Load_model ''small.en'' ''cpu'' ''int8'',
      Print ''WhisperX model loaded successfully.'',
      Load_audio ''talk.wav'',
      Print ''An error occurred during transcription: cannot decode'',
      Print_exc (LibraryError ''cannot decode'')])"
  by (simp add: meth_defs prog_defs world_defs)

section \<open>The claims\<close>

subsection \<open>A missing file\<close>

text \<open>
  C7. For a path that does not exist, \<^verbatim>\<open>transcribe_audio\<close> returns \<^verbatim>\<open>None\<close> at once: the
  transcriber is the one it started with (no field of it is modified), and the only event
  is the printed message, so no model is loaded.
\<close>

theorem transcribe_audio_missing_file:
  assumes "\<not> os_path_exists E p"
  shows "transcribe_audio M E p al di s =
           (Returns None, s, [Print (''Error: Audio file not found at '' @ p)])"
  using assms by (simp add: transcribe_audio_def prog_defs)

theorem transcribe_audio_missing_file_witness:
  "transcribe_audio Gui_py lib_ok ''none.wav'' True True warm =
     (Returns None, warm, [Print ''Error: Audio file not found at none.wav''])"
  using transcribe_audio_missing_file [of lib_ok "''none.wav''" Gui_py True True warm]
  by (simp add: lib_ok_def)

subsection \<open>Changing the model name\<close>

text \<open>
  C9. \<^verbatim>\<open>set_model(name)\<close> sets \<^verbatim>\<open>model_name\<close> to the name and the cached acoustic model to
  \<^verbatim>\<open>None\<close>, and leaves \<^verbatim>\<open>align_model\<close>, \<^verbatim>\<open>align_metadata\<close>, \<^verbatim>\<open>diarize_model\<close>, \<^verbatim>\<open>device\<close> and
  \<^verbatim>\<open>compute_type\<close> as they were; \<^verbatim>\<open>change_model\<close> of the main window does the same to the
  window's transcriber and changes nothing else of the window.
\<close>

theorem set_model_frame:
  "model_name (set_model name s) = name
   \<and> model (set_model name s) = None
   \<and> align_model (set_model name s) = align_model s
   \<and> align_metadata (set_model name s) = align_metadata s
   \<and> diarize_model (set_model name s) = diarize_model s
   \<and> device (set_model name s) = device s
   \<and> compute_type (set_model name s) = compute_type s
   \<and> transcriber (change_model w name) = set_model name (transcriber w)
   \<and> main_window.more (change_model w name) = main_window.more w"
  by (simp add: set_model_def change_model_def)

theorem set_model_frame_witness:
  "set_model ''large-v2'' warm =
     warm\<lparr>model_name := ''large-v2'', model := None\<rparr>
   \<and> align_model (set_model ''large-v2'' warm) = Some (AlignModel 1)
   \<and> diarize_model (set_model ''large-v2'' warm) = Some (Pipeline 1)"
  using set_model_frame [of "''large-v2''" warm]
  by (simp add: set_model_def warm_def)

subsection \<open>Reloading the acoustic model\<close>

text \<open>
  C3. \<^verbatim>\<open>load_model\<close> calls \<^verbatim>\<open>whisperx.load_model\<close> if and only if no model is cached or the
  cached model has a \<^verbatim>\<open>model_name\<close> that differs from the transcriber's; the call is made with
  the transcriber's current name, device and compute type. When it makes no call the
  transcriber, and so the cached model, is unchanged; when the call returns a model, that
  model replaces the cached one and nothing else changes.
\<close>

theorem load_model_reloads_iff_stale:
  "((\<exists>n d c. Load_model n d c \<in> set (trace_of (load_model E s))) \<longleftrightarrow>
      (model s = None \<or> (\<exists>m n. model s = Some m \<and> attr_model_name E m = Inr n \<and> n \<noteq> model_name s)))
   \<and> (\<forall>n d c. Load_model n d c \<in> set (trace_of (load_model E s)) \<longrightarrow>
         n = model_name s \<and> d = device s \<and> c = compute_type s)
   \<and> ((\<nexists>n d c. Load_model n d c \<in> set (trace_of (load_model E s))) \<longrightarrow>
         state_after (load_model E s) = s)
   \<and> (\<forall>m'. (\<exists>n d c. Load_model n d c \<in> set (trace_of (load_model E s)))
           \<and> whisperx_load_model E (model_name s) (device s) (compute_type s) = Inr m' \<longrightarrow>
         state_after (load_model E s) = s\<lparr>model := Some m'\<rparr> \<and> outcome_of (load_model E s) = Returns ())"
  by (auto simp: read_defs load_model_def load_model_test_def prog_defs split: option.splits sum.splits)

theorem load_model_reloads_iff_stale_witness:
  "(\<exists>n d c. Load_model n d c \<in> set (trace_of (load_model lib_ok fresh)))
   \<and> state_after (load_model lib_ok fresh) = fresh\<lparr>model := Some (WhisperModel 1)\<rparr>
   \<and> (\<nexists>n d c. Load_model n d c \<in> set (trace_of (load_model lib_ok warm)))
   \<and> state_after (load_model lib_ok warm) = warm"
  using load_model_reloads_iff_stale [of lib_ok fresh] load_model_reloads_iff_stale [of lib_ok warm]
    fresh_fields warm_fields lib_ok_calls
  by simp

subsection \<open>Reloading the alignment model\<close>



subsection \<open>The diarization pipeline is loaded once\<close>

lemma diarize_model_kept_by_each:
  assumes "diarize_model s = Some d"
  shows "(diarize_model (state_after (load_diarize_model M E s)) = Some d
            \<and> list_all (\<lambda>ev. \<not> builds_diarizer ev) (trace_of (load_diarize_model M E s)))
       \<and> (diarize_model (state_after (transcribe_audio M E p al di s)) = Some d
            \<and> list_all (\<lambda>ev. \<not> builds_diarizer ev) (trace_of (transcribe_audio M E p al di s)))
       \<and> (diarize_model (state_after (load_model E s)) = Some d
            \<and> list_all (\<lambda>ev. \<not> builds_diarizer ev) (trace_of (load_model E s)))
       \<and> (diarize_model (state_after (load_align_model E l s)) = Some d
            \<and> list_all (\<lambda>ev. \<not> builds_diarizer ev) (trace_of (load_align_model E l s)))
       \<and> diarize_model (set_model name s) = Some d"
proof -
  let ?I = "\<lambda>s. diarize_model s = Some d" and ?P = "\<lambda>ev. \<not> builds_diarizer ev"
  have ld: "keeps ?I ?P (load_diarize_model M E)"
    by (rule keeps_load_diarize_model_cached) simp
  have lm: "keeps ?I ?P (load_model E)"
    by (rule keeps_load_model) simp_all
  have la: "keeps ?I ?P (load_align_model E l)" for l
    by (rule keeps_load_align_model) simp_all
  have ta: "keeps ?I ?P (transcribe_audio M E p al di)"
    by (intro keeps_transcribe_audio ld lm la) (auto elim: step_of.elims)
  from ld lm la[of l] ta assms show ?thesis
    by (simp add: keeps_def set_model_def)
qed

lemma diarize_model_kept_by_op:
  assumes "diarize_model s = Some d"
  shows "diarize_model (fst (run_op M E op s)) = Some d
     \<and> list_all (\<lambda>ev. \<not> builds_diarizer ev) (snd (run_op M E op s))"
proof (cases op)
  case Op_load_model
  with diarize_model_kept_by_each[OF assms, of M E] show ?thesis by (simp add: read_defs)
next
  case (Op_load_align_model l)
  with diarize_model_kept_by_each[OF assms, of M E _ _ _ l] show ?thesis by (simp add: read_defs)
next
  case Op_load_diarize_model
  with diarize_model_kept_by_each[OF assms, of M E] show ?thesis by (simp add: read_defs)
next
  case (Op_transcribe_audio p al di)
  with diarize_model_kept_by_each[OF assms, of M E p al di] show ?thesis by (simp add: read_defs)
next
  case (Op_set_model name)
  with diarize_model_kept_by_each[OF assms, of M E _ _ _ _ name] show ?thesis by simp
qed

text \<open>
  C6. Once \<^verbatim>\<open>diarize_model\<close> holds a pipeline, every sequence of operations of the
  transcriber (\<^verbatim>\<open>load_diarize_model\<close>, \<^verbatim>\<open>transcribe_audio\<close>, \<^verbatim>\<open>load_model\<close>,
  \<^verbatim>\<open>load_align_model\<close>, \<^verbatim>\<open>set_model\<close>, in any order and with any arguments) ends with the same
  pipeline in \<^verbatim>\<open>diarize_model\<close>, and none of them makes a call that builds a pipeline.
\<close>

theorem diarize_model_never_reloaded:
  assumes "diarize_model s = Some d"
  shows "diarize_model (fst (run_ops M E ops s)) = Some d
     \<and> list_all (\<lambda>ev. \<not> builds_diarizer ev) (snd (run_ops M E ops s))"
  using assms
proof (induction ops arbitrary: s)
  case Nil
  then show ?case by simp
next
  case (Cons op ops)
  obtain s1 t1 where one: "run_op M E op s = (s1, t1)" by (cases "run_op M E op s") auto
  with diarize_model_kept_by_op[OF Cons.prems, of M E op]
  have s1: "diarize_model s1 = Some d" and t1: "list_all (\<lambda>ev. \<not> builds_diarizer ev) t1" by simp_all
  obtain s2 t2 where rest: "run_ops M E ops s1 = (s2, t2)" by (cases "run_ops M E ops s1") auto
  with Cons.IH[OF s1] have "diarize_model s2 = Some d" "list_all (\<lambda>ev. \<not> builds_diarizer ev) t2"
    by simp_all
  with one rest t1 show ?case by simp
qed

theorem diarize_model_never_reloaded_witness:
  "diarize_model warm = Some (Pipeline 1)
   \<and> diarize_model
        (fst (run_ops Gui_py lib_ok
           [Op_set_model ''large-v2'', Op_transcribe_audio ''talk.wav'' True True,
            Op_load_diarize_model] warm)) = Some (Pipeline 1)
   \<and> list_all (\<lambda>ev. \<not> builds_diarizer ev)
        (snd (run_ops Gui_py lib_ok
           [Op_set_model ''large-v2'', Op_transcribe_audio ''talk.wav'' True True,
            Op_load_diarize_model] warm))"
  using diarize_model_never_reloaded
    [of warm "Pipeline 1" Gui_py lib_ok
        "[Op_set_model ''large-v2'', Op_transcribe_audio ''talk.wav'' True True, Op_load_diarize_model]"]
    warm_fields
  by simp

subsection \<open>The signals of the worker thread\<close>

lemma signals_of_no_signal: "list_all (\<lambda>ev. \<not> is_signal ev) t \<Longrightarrow> filter is_signal t = []"
  by (induction t) auto

text \<open>
  C4. Every run of \<^verbatim>\<open>TranscriptionThread.run\<close> returns normally and emits exactly one signal:
  \<^verbatim>\<open>transcription_complete\<close> with the result when \<^verbatim>\<open>transcribe_audio\<close> returns a truthy
  result, \<^verbatim>\<open>transcription_error\<close> with the fixed message when it returns a falsy one, and
  \<^verbatim>\<open>transcription_error\<close> with \<^verbatim>\<open>str(e)\<close> when it raises \<^verbatim>\<open>e\<close>.
\<close>

theorem run_emits_exactly_one_signal:
  "outcome_of (run M E th s) = Returns ()
   \<and> length (filter is_signal (trace_of (run M E th s))) = 1
   \<and> (\<forall>r. outcome_of (transcribe_audio M E (audio_file th) (align_timestamps th) (diarize th) s) = Returns r \<and> truthy r
          \<longrightarrow> (\<exists>d. r = Some d \<and> filter is_signal (trace_of (run M E th s)) = [Emit_transcription_complete d]))
   \<and> (\<forall>r. outcome_of (transcribe_audio M E (audio_file th) (align_timestamps th) (diarize th) s) = Returns r \<and> \<not> truthy r
          \<longrightarrow> filter is_signal (trace_of (run M E th s)) =
                [Emit_transcription_error ''Transcription failed. Please check the console for errors.''])
   \<and> (\<forall>e. outcome_of (transcribe_audio M E (audio_file th) (align_timestamps th) (diarize th) s) = Raises e
          \<longrightarrow> filter is_signal (trace_of (run M E th s)) = [Emit_transcription_error (py_str e)])"
proof -
  obtain o1 s1 t1 where ta: "transcribe_audio M E (audio_file th) (align_timestamps th) (diarize th) s = (o1, s1, t1)"
    by (cases "transcribe_audio M E (audio_file th) (align_timestamps th) (diarize th) s") auto
  have "filter is_signal t1 = []"
    using transcribe_audio_no_signal[of M E "audio_file th" "align_timestamps th" "diarize th" s] ta
    by (simp add: trace_of_def signals_of_no_signal)
  with ta show ?thesis
    by (cases o1) (auto simp: run_def read_defs prog_defs truthy_def split: option.splits)
qed

theorem run_emits_exactly_one_signal_witness:
  "filter is_signal
     (trace_of (run Gui_py lib_ok \<lparr>audio_file = ''talk.wav'', align_timestamps = False, diarize = False\<rparr> warm)) =
   [Emit_transcription_complete [(''segments'', Obj 1), (''language'', Str ''en'')]]"
  using run_emits_exactly_one_signal
    [of Gui_py lib_ok "\<lparr>audio_file = ''talk.wav'', align_timestamps = False, diarize = False\<rparr>" warm]
    run_warm_gui
  by (simp add: read_defs truthy_def)

subsection \<open>Which exceptions transcribe_audio catches\<close>

text \<open>
  C2, as the claim states it, fails: \<^verbatim>\<open>self.load_model()\<close> runs before the \<^verbatim>\<open>try\<close> block, so
  an exception of \<^verbatim>\<open>whisperx.load_model\<close> reaches the caller.
\<close>

theorem transcribe_audio_propagates_load_failure:
  "os_path_exists lib_no_model ''talk.wav''
   \<and> transcribe_audio Gui_py lib_no_model ''talk.wav'' False False fresh =
       (Raises (LibraryError ''out of memory''), fresh,
        [Print ''Loading WhisperX model: small.en'', Load_model ''small.en'' ''cpu'' ''int8''])
   \<and> transcribe_audio Transcriber_py lib_no_model ''talk.wav'' False False fresh =
       (Raises (LibraryError ''out of memory''), fresh,
        [Print ''Loading WhisperX model: small.en'', Load_model ''small.en'' ''cpu'' ''int8''])"
  by (simp add: meth_defs prog_defs world_defs)

text \<open>
  C2, amended. \<^verbatim>\<open>transcribe_audio\<close> raises exactly when the file exists and \<^verbatim>\<open>load_model\<close>
  raises, which is when reading the cached model's name raises or \<^verbatim>\<open>whisperx.load_model\<close> is
  called and raises. For a missing file it prints the message and returns \<^verbatim>\<open>None\<close>. When
  \<^verbatim>\<open>load_model\<close> has returned and a step of the \<^verbatim>\<open>try\<close> block raises, it prints the error and
  the traceback and returns \<^verbatim>\<open>None\<close>; when the block returns a result, it returns that
  result.
\<close>

theorem transcribe_audio_catches_inside_try:
  "(outcome_of (transcribe_audio M E p al di s) = Raises e \<longleftrightarrow>
      os_path_exists E p \<and> outcome_of (load_model E s) = Raises e)
   \<and> (outcome_of (load_model E s) = Raises e \<longleftrightarrow>
        (\<exists>m. model s = Some m \<and> attr_model_name E m = Inl e)
        \<or> ((model s = None \<or> (\<exists>m n. model s = Some m \<and> attr_model_name E m = Inr n \<and> n \<noteq> model_name s))
            \<and> whisperx_load_model E (model_name s) (device s) (compute_type s) = Inl e))
   \<and> (\<not> os_path_exists E p \<longrightarrow>
        transcribe_audio M E p al di s = (Returns None, s, [Print (''Error: Audio file not found at '' @ p)]))
   \<and> (os_path_exists E p \<and> load_model E s = (Returns (), s1, t1)
        \<and> transcribe_audio_try M E p al di s1 = (Raises x, s2, t2) \<longrightarrow>
        transcribe_audio M E p al di s =
          (Returns None, s2,
           t1 @ t2 @ [Print (''An error occurred during transcription: '' @ py_str x), Print_exc x]))
   \<and> (os_path_exists E p \<and> load_model E s = (Returns (), s1, t1)
        \<and> transcribe_audio_try M E p al di s1 = (Returns r, s2, t2) \<longrightarrow>
        transcribe_audio M E p al di s = (Returns (Some r), s2, t1 @ t2))"
proof -
  have a: "outcome_of (transcribe_audio M E p al di s) = Raises e \<longleftrightarrow>
      os_path_exists E p \<and> outcome_of (load_model E s) = Raises e"
    by (cases "load_model E s"; cases "fst (load_model E s)";
        cases "transcribe_audio_try M E p al di (fst (snd (load_model E s)))";
        cases "fst (transcribe_audio_try M E p al di (fst (snd (load_model E s))))")
       (auto simp: transcribe_audio_def read_defs prog_defs)
  have b: "outcome_of (load_model E s) = Raises e \<longleftrightarrow>
        (\<exists>m. model s = Some m \<and> attr_model_name E m = Inl e)
        \<or> ((model s = None \<or> (\<exists>m n. model s = Some m \<and> attr_model_name E m = Inr n \<and> n \<noteq> model_name s))
            \<and> whisperx_load_model E (model_name s) (device s) (compute_type s) = Inl e)"
    by (auto simp: read_defs load_model_def load_model_test_def prog_defs split: option.splits sum.splits)
  have c: "\<not> os_path_exists E p \<longrightarrow>
        transcribe_audio M E p al di s = (Returns None, s, [Print (''Error: Audio file not found at '' @ p)])"
    by (simp add: transcribe_audio_def prog_defs)
  have d: "os_path_exists E p \<and> load_model E s = (Returns (), s1, t1)
        \<and> transcribe_audio_try M E p al di s1 = (Raises x, s2, t2) \<longrightarrow>
        transcribe_audio M E p al di s =
          (Returns None, s2,
           t1 @ t2 @ [Print (''An error occurred during transcription: '' @ py_str x), Print_exc x])"
    by (simp add: transcribe_audio_def prog_defs)
  have f: "os_path_exists E p \<and> load_model E s = (Returns (), s1, t1)
        \<and> transcribe_audio_try M E p al di s1 = (Returns r, s2, t2) \<longrightarrow>
        transcribe_audio M E p al di s = (Returns (Some r), s2, t1 @ t2)"
    by (simp add: transcribe_audio_def prog_defs)
  from a b c d f show ?thesis by blast
qed

theorem transcribe_audio_catches_inside_try_witness:
  "os_path_exists lib_no_audio ''talk.wav''
   \<and> transcribe_audio Gui_py lib_no_audio ''talk.wav'' True True fresh =
      (Returns None, fresh\<lparr>model := Some (WhisperModel 1)\<rparr>,
       [Print ''Loading WhisperX model: small.en'', Load_model ''small.en'' ''cpu'' ''int8'',
        Print ''WhisperX model loaded successfully.'', Load_audio ''talk.wav'',
        Print ''An error occurred during transcription: cannot decode'',
        Print_exc (LibraryError ''cannot decode'')])"
  using transcribe_audio_catches_inside_try
    [of Gui_py lib_no_audio "''talk.wav''" True True fresh "LibraryError ''cannot decode''"
        "fresh\<lparr>model := Some (WhisperModel 1)\<rparr>"
        "[Print ''Loading WhisperX model: small.en'', Load_model ''small.en'' ''cpu'' ''int8'',
          Print ''WhisperX model loaded successfully.'']"
        "LibraryError ''cannot decode''"
        "fresh\<lparr>model := Some (WhisperModel 1)\<rparr>" "[Load_audio ''talk.wav'']" "[]"]
    load_model_fresh_no_audio try_no_audio lib_no_audio_exists
  by simp

subsection \<open>The order of the three stages\<close>

text \<open>
  C1, as the claim states it, fails: the file exists and both options are set, but loading
  the audio raises, so no stage runs, not even transcription, and the value returned is
  \<^verbatim>\<open>None\<close>.
\<close>

theorem transcription_does_not_always_run:
  "os_path_exists lib_no_audio ''talk.wav''
   \<and> steps_run (trace_of (transcribe_audio Gui_py lib_no_audio ''talk.wav'' True True fresh)) = []
   \<and> outcome_of (transcribe_audio Gui_py lib_no_audio ''talk.wav'' True True fresh) = Returns None"
  by (simp add: run_no_audio read_defs lib_no_audio_exists)

text \<open>
  C1, amended. For a file that exists, the stages that run are an initial part of the fixed
  order: transcription, alignment if \<^verbatim>\<open>align_timestamps\<close>, diarization with the assignment of
  speakers if \<^verbatim>\<open>diarize\<close>; a step that raises ends the run there. When the call returns a
  result, the stages that ran are exactly these, and the calls made and the value returned
  are those of \<open>staged_pipeline\<close>: transcription first, alignment on the segments of the
  transcription, diarization assigning speakers to the current result, and the result of
  the last stage returned.
\<close>

theorem transcribe_audio_runs_stages_in_order:
  assumes "os_path_exists E p"
  shows "prefix (steps_run (trace_of (transcribe_audio M E p al di s))) (expected_steps al di)
     \<and> (\<forall>r. outcome_of (transcribe_audio M E p al di s) = Returns (Some r) \<longrightarrow>
          steps_run (trace_of (transcribe_audio M E p al di s)) = expected_steps al di
          \<and> staged_pipeline M E p al di (state_after (transcribe_audio M E p al di s)) =
              Some (step_calls (trace_of (transcribe_audio M E p al di s)), r))"
  using assms
proof (cases rule: transcribe_audio_cases[where M = M and al = al and di = di and s = s])
  case (load_raises e s1 t1)
  from load_model_no_step[of E s] load_raises(1) have "step_calls t1 = []" by (simp add: trace_of_def)
  from steps_run_from_calls[OF this] load_raises(2) show ?thesis by (simp add: read_defs)
next
  case (try_raises s1 t1 e s2 t2)
  from load_model_no_step[of E s] try_raises(1) have "step_calls t1 = []" by (simp add: trace_of_def)
  from steps_run_from_calls[OF this] have "steps_run t1 = []" by simp
  with transcribe_audio_try_steps[OF try_raises(2)] try_raises(3) show ?thesis
    by (simp add: read_defs steps_run_append)
next
  case (try_returns s1 t1 r s2 t2)
  from load_model_no_step[of E s] try_returns(1) have c1: "step_calls t1 = []" by (simp add: trace_of_def)
  from steps_run_from_calls[OF this] have r1: "steps_run t1 = []" by simp
  with transcribe_audio_try_steps[OF try_returns(2)] try_returns(3) c1 show ?thesis
    by (simp add: read_defs steps_run_append step_calls_append)
qed

theorem transcribe_audio_runs_stages_in_order_witness:
  "os_path_exists lib_ok ''talk.wav''
   \<and> steps_run (trace_of (transcribe_audio Gui_py lib_ok ''talk.wav'' True True fresh)) =
       [Transcription, Alignment, Diarization, Speaker_assignment]
   \<and> staged_pipeline Gui_py lib_ok ''talk.wav'' True True
         (state_after (transcribe_audio Gui_py lib_ok ''talk.wav'' True True fresh)) =
       Some (step_calls (trace_of (transcribe_audio Gui_py lib_ok ''talk.wav'' True True fresh)),
             [(''speakers'', Obj 5), (''segments'', Obj 2), (''word_segments'', Obj 3)])"
  using transcribe_audio_runs_stages_in_order [of lib_ok "''talk.wav''" Gui_py True True fresh]
    lib_ok_calls run_fresh_gui
  by (simp add: read_defs expected_steps_def)

subsection \<open>No rollback on the error path\<close>

lemma loads_stay_cached:
  assumes run: "transcribe_audio M E p al di s = (out, s', t)"
  shows "(\<forall>n d c m. Load_model n d c \<in> set t \<and> whisperx_load_model E n d c = Inr m \<longrightarrow> model s' = Some m)
     \<and> (\<forall>l d am md. Load_align_model l d \<in> set t \<and> whisperx_load_align_model E l d = Inr (am, md) \<longrightarrow>
            align_model s' = Some am \<and> align_metadata s' = Some md)
     \<and> (\<forall>pl v dm. Instantiate pl v \<in> set t \<and> pipeline_instantiate E pl v = Inr dm \<longrightarrow>
            diarize_model s' = Some dm)
     \<and> ((\<forall>n d c. Load_model n d c \<notin> set t) \<longrightarrow> model s' = model s)
     \<and> ((\<forall>l d. Load_align_model l d \<notin> set t) \<longrightarrow>
            align_model s' = align_model s \<and> align_metadata s' = align_metadata s)
     \<and> ((\<forall>pl v. Instantiate pl v \<notin> set t) \<longrightarrow> diarize_model s' = diarize_model s)
     \<and> device s' = device s \<and> compute_type s' = compute_type s \<and> model_name s' = model_name s"
proof -
  have m: "loads_cached is_load_model (model_cached E) model s t s'"
    using hoareD[OF transcribe_audio_caches_model[of s M E p al di] _ run, of "[]"]
    by (simp add: untouched_def)
  have a: "loads_cached is_load_align_model (align_cached E) align_fields s t s'"
    using hoareD[OF transcribe_audio_caches_align[of s M E p al di] _ run, of "[]"]
    by (simp add: untouched_def)
  have d: "loads_cached is_instantiate (diarizer_cached E) diarize_model s t s'"
    using hoareD[OF transcribe_audio_caches_diarizer[of s M E p al di] _ run, of "[]"]
    by (simp add: untouched_def)
  have "keeps (\<lambda>x. device x = device s \<and> compute_type x = compute_type s \<and> model_name x = model_name s)
          (\<lambda>_. True) (transcribe_audio M E p al di)"
    by (intro keeps_transcribe_audio keeps_load_model keeps_load_align_model keeps_load_diarize_model)
       simp_all
  from keepsD[OF this _ run] have f: "device s' = device s" "compute_type s' = compute_type s"
    "model_name s' = model_name s" by simp_all
  have m1: "model s' = Some x" if "Load_model n d c \<in> set t" "whisperx_load_model E n d c = Inr x" for n d c x
    using m that by (auto simp: loads_cached_def list_all_iff)
  have m2: "model s' = model s" if "\<forall>n d c. Load_model n d c \<notin> set t"
  proof -
    have "\<not> is_load_model ev" if "ev \<in> set t" for ev
      by (cases ev) (use that \<open>\<forall>n d c. Load_model n d c \<notin> set t\<close> in auto)
    with m show ?thesis by (auto simp: loads_cached_def list_all_iff)
  qed
  have a1: "align_model s' = Some am \<and> align_metadata s' = Some md"
    if "Load_align_model l d \<in> set t" "whisperx_load_align_model E l d = Inr (am, md)" for l d am md
    using a that by (auto simp: loads_cached_def list_all_iff align_fields_def)
  have a2: "align_model s' = align_model s \<and> align_metadata s' = align_metadata s"
    if "\<forall>l d. Load_align_model l d \<notin> set t"
  proof -
    have "\<not> is_load_align_model ev" if "ev \<in> set t" for ev
      by (cases ev) (use that \<open>\<forall>l d. Load_align_model l d \<notin> set t\<close> in auto)
    with a show ?thesis by (auto simp: loads_cached_def list_all_iff align_fields_def)
  qed
  have d1: "diarize_model s' = Some dm"
    if "Instantiate pl v \<in> set t" "pipeline_instantiate E pl v = Inr dm" for pl v dm
    using d that by (auto simp: loads_cached_def list_all_iff)
  have d2: "diarize_model s' = diarize_model s" if "\<forall>pl v. Instantiate pl v \<notin> set t"
  proof -
    have "\<not> is_instantiate ev" if "ev \<in> set t" for ev
      by (cases ev) (use that \<open>\<forall>pl v. Instantiate pl v \<notin> set t\<close> in auto)
    with d show ?thesis by (auto simp: loads_cached_def list_all_iff)
  qed
  from m1 m2 a1 a2 d1 d2 f show ?thesis by blast
qed

text \<open>
  C10. When \<^verbatim>\<open>transcribe_audio\<close> returns \<^verbatim>\<open>None\<close> for a file that exists, an exception was
  caught (its traceback is printed), and every model loaded during the call is cached in
  the transcriber the call leaves: the acoustic model of each \<^verbatim>\<open>whisperx.load_model\<close> that
  returned, the alignment model and metadata of each \<^verbatim>\<open>whisperx.load_align_model\<close> that
  returned, the pipeline of each \<^verbatim>\<open>instantiate\<close> that returned. A cache for which nothing was
  loaded is as before the call, and so are the device, the compute type and the model name.
\<close>

theorem no_rollback_on_error:
  assumes "os_path_exists E p" and "transcribe_audio M E p al di s = (Returns None, s', t)"
  shows "(\<exists>e. Print_exc e \<in> set t)
     \<and> (\<forall>n d c m. Load_model n d c \<in> set t \<and> whisperx_load_model E n d c = Inr m \<longrightarrow> model s' = Some m)
     \<and> (\<forall>l d am md. Load_align_model l d \<in> set t \<and> whisperx_load_align_model E l d = Inr (am, md) \<longrightarrow>
            align_model s' = Some am \<and> align_metadata s' = Some md)
     \<and> (\<forall>pl v dm. Instantiate pl v \<in> set t \<and> pipeline_instantiate E pl v = Inr dm \<longrightarrow>
            diarize_model s' = Some dm)
     \<and> ((\<forall>n d c. Load_model n d c \<notin> set t) \<longrightarrow> model s' = model s)
     \<and> ((\<forall>l d. Load_align_model l d \<notin> set t) \<longrightarrow>
            align_model s' = align_model s \<and> align_metadata s' = align_metadata s)
     \<and> ((\<forall>pl v. Instantiate pl v \<notin> set t) \<longrightarrow> diarize_model s' = diarize_model s)
     \<and> device s' = device s \<and> compute_type s' = compute_type s \<and> model_name s' = model_name s"
proof -
  have "\<exists>e. Print_exc e \<in> set t"
    using assms(1)
  proof (cases rule: transcribe_audio_cases[where M = M and al = al and di = di and s = s])
    case (load_raises e s1 t1)
    with assms(2) show ?thesis by simp
  next
    case (try_raises s1 t1 e s2 t2)
    with assms(2) show ?thesis by auto
  next
    case (try_returns s1 t1 r s2 t2)
    with assms(2) show ?thesis by simp
  qed
  with loads_stay_cached[OF assms(2)] show ?thesis by simp
qed

theorem no_rollback_on_error_witness:
  "os_path_exists lib_no_align ''talk.wav''
   \<and> outcome_of (transcribe_audio Gui_py lib_no_align ''talk.wav'' True True fresh) = Returns None
   \<and> Load_model ''small.en'' ''cpu'' ''int8''
        \<in> set (trace_of (transcribe_audio Gui_py lib_no_align ''talk.wav'' True True fresh))
   \<and> Load_align_model (Str ''en'') ''cpu''
        \<in> set (trace_of (transcribe_audio Gui_py lib_no_align ''talk.wav'' True True fresh))
   \<and> model (state_after (transcribe_audio Gui_py lib_no_align ''talk.wav'' True True fresh)) =
        Some (WhisperModel 1)
   \<and> align_model (state_after (transcribe_audio Gui_py lib_no_align ''talk.wav'' True True fresh)) =
        Some (AlignModel 1)
   \<and> diarize_model (state_after (transcribe_audio Gui_py lib_no_align ''talk.wav'' True True fresh)) =
        diarize_model fresh"
  using no_rollback_on_error [OF lib_no_align_exists run_no_align]
    lib_no_align_exists lib_no_align_calls run_no_align
  by (simp add: read_defs)

subsection \<open>The two definitions of the class\<close>

lemma modules_agree_without_diarize:
  "transcribe_audio Transcriber_py E p al False s = transcribe_audio Gui_py E p al False s"
  by (simp add: transcribe_audio_def transcribe_audio_try_def)

lemma transcriber_py_never_loads_a_pipeline:
  assumes "diarize_model s = None"
  shows "(\<exists>e. outcome_of (load_diarize_model Transcriber_py E s) = Raises e)
     \<and> diarize_model (state_after (load_diarize_model Transcriber_py E s)) = None"
  using assms
  by (auto simp: load_diarize_model_def prog_defs read_defs Let_def split: sum.splits)

text \<open>
  C8. The two definitions of \<^verbatim>\<open>WhisperXTranscriber\<close> are not equivalent. With the same
  libraries, the same file and a fresh transcriber, \<^verbatim>\<open>transcribe_audio\<close> with \<^verbatim>\<open>diarize\<close> set
  returns \<^verbatim>\<open>None\<close> in \<^verbatim>\<open>transcriber.py\<close> (\<^verbatim>\<open>yaml\<close> is not imported there, so loading the pipeline
  raises \<^verbatim>\<open>NameError\<close>) and leaves no pipeline cached, while in \<^verbatim>\<open>gui.py\<close> it returns the result
  with speakers and caches the pipeline. With a pipeline already cached, \<^verbatim>\<open>transcriber.py\<close>
  calls it on the decoded audio and \<^verbatim>\<open>gui.py\<close> on the path of the file.
\<close>

theorem transcriber_py_and_gui_py_differ:
  "transcribe_audio Transcriber_py lib_ok ''talk.wav'' False True fresh =
     (Returns None, fresh\<lparr>model := Some (WhisperModel 1)\<rparr>,
      [Print ''Loading WhisperX model: small.en'',
       Load_model ''small.en'' ''cpu'' ''int8'',
       Print ''WhisperX model loaded successfully.'',
       Load_audio ''talk.wav'',
       Transcribe (WhisperModel 1) (Audio 1) 16,
       Print ''Loading diarization model...'',
       New_SpeakerDiarization ''/app/models/segmentation-3.0/pytorch_model.bin''
         ''/app/models/wespeaker-voxceleb-resnet34-LM/pytorch_model.bin'' ''AgglomerativeClustering'',
       Open_file ''/app/models/speaker-diarization-3.1/config.yaml'',
       Print (''An error occurred during transcription: name '' @ quote @ ''yaml'' @ quote @ '' is not defined''),
       Print_exc (NameError (''name '' @ quote @ ''yaml'' @ quote @ '' is not defined''))])
   \<and> transcribe_audio Gui_py lib_ok ''talk.wav'' False True fresh =
     (Returns (Some [(''speakers'', Obj 5), (''segments'', Obj 1), (''language'', Str ''en'')]),
      fresh\<lparr>model := Some (WhisperModel 1), diarize_model := Some (Pipeline 1)\<rparr>,
      [Print ''Loading WhisperX model: small.en'',
       Load_model ''small.en'' ''cpu'' ''int8'',
       Print ''WhisperX model loaded successfully.'',
       Load_audio ''talk.wav'',
       Transcribe (WhisperModel 1) (Audio 1) 16,
       Print ''Loading diarization model...'',
       New_SpeakerDiarization ''/app/models/segmentation-3.0/pytorch_model.bin''
         ''/app/models/wespeaker-voxceleb-resnet34-LM/pytorch_model.bin'' ''AgglomerativeClustering'',
       Open_file ''/app/models/speaker-diarization-3.1/config.yaml'',
       Yaml_safe_load (TextFile 1),
       Instantiate (Pipeline 1) (Obj 4),
       Print ''Diarization model loaded successfully.'',
       Diarize (Pipeline 1) (File_path ''talk.wav''),
       Assign_word_speakers (DiarizeSegments 1) [(''segments'', Obj 1), (''language'', Str ''en'')]])
   \<and> trace_of (transcribe_audio Transcriber_py lib_ok ''talk.wav'' False True warm) =
     [Load_audio ''talk.wav'', Transcribe (WhisperModel 1) (Audio 1) 16,
      Diarize (Pipeline 1) (Waveform (Audio 1)),
      Assign_word_speakers (DiarizeSegments 1) [(''segments'', Obj 1), (''language'', Str ''en'')]]
   \<and> trace_of (transcribe_audio Gui_py lib_ok ''talk.wav'' False True warm) =
     [Load_audio ''talk.wav'', Transcribe (WhisperModel 1) (Audio 1) 16,
      Diarize (Pipeline 1) (File_path ''talk.wav''),
      Assign_word_speakers (DiarizeSegments 1) [(''segments'', Obj 1), (''language'', Str ''en'')]]"
  by (simp add: meth_defs prog_defs world_defs read_defs)

end
